theory Spec2Isabelle
  imports Complex_Main
begin

section \<open>London breakout backtester: data model\<close>

text \<open>
  Conventions of the embedding.
  \<^item> Python floats are exact reals: the properties below are properties of the
    arithmetic the code writes down, not of IEEE rounding; NaN does not occur.
  \<^item> A \<open>datetime\<close> is the number of microseconds since an epoch at midnight;
    \<open>date_of\<close> is Python's \<open>.date()\<close> (a day number) and \<open>time_of\<close> is
    \<open>.time()\<close> (microseconds since midnight). \<open>datetime.combine d t\<close> is
    \<open>combine d t\<close>.
  \<^item> The module \<open>config\<close> is a record passed to every function that reads it.
  \<^item> \<open>print\<close> calls are left out.
\<close>

type_synonym datetime = int

definition DAY :: int where
  "DAY = 86400000000"

definition date_of :: "datetime \<Rightarrow> int" where
  "date_of t = t div DAY"

definition time_of :: "datetime \<Rightarrow> int" where
  "time_of t = t mod DAY"

definition combine :: "int \<Rightarrow> int \<Rightarrow> datetime" where
  "combine d tm = d * DAY + tm"

record config =
  ASIAN_SESSION_START :: int
  ASIAN_SESSION_END :: int
  LONDON_OPEN :: int
  LONDON_CLOSE :: int
  TRADING_WINDOW_HOURS :: int
  BREAKOUT_BUFFER_PIPS :: real
  MIN_RANGE_PIPS :: real
  MAX_RANGE_PIPS :: real
  RISK_PER_TRADE_PERCENT :: real
  POSITION_SIZE_PER_100 :: real
  RISK_REWARD_RATIO :: real
  MIN_RISK_REWARD :: real
  MAX_DAILY_LOSS_PERCENT :: real
  MAX_OPEN_POSITIONS :: int
  MAX_POSITION_SIZE_LOTS :: real
  USE_TREND_FILTER :: bool
  TREND_EMA_PERIOD :: int
  TRADE_WITH_TREND_ONLY :: bool
  INITIAL_CAPITAL :: real
  COMMISSION_PER_LOT :: real
  USE_TIME_EXIT :: bool
  EXIT_BEFORE_CLOSE_MINUTES :: int
  USE_TRAILING_STOP :: bool
  TRAILING_STOP_ACTIVATION_RR :: real
  TRAILING_STOP_DISTANCE_PIPS :: real

text \<open>The values of \<open>config.py\<close> as shipped.\<close>

definition default_config :: config where
  "default_config = \<lparr>
     ASIAN_SESSION_START = 0,
     ASIAN_SESSION_END = 7 * 3600000000,
     LONDON_OPEN = 8 * 3600000000,
     LONDON_CLOSE = 16 * 3600000000,
     TRADING_WINDOW_HOURS = 2,
     BREAKOUT_BUFFER_PIPS = 2,
     MIN_RANGE_PIPS = 15,
     MAX_RANGE_PIPS = 100,
     RISK_PER_TRADE_PERCENT = 1,
     POSITION_SIZE_PER_100 = 1 / 100,
     RISK_REWARD_RATIO = 2,
     MIN_RISK_REWARD = 3 / 2,
     MAX_DAILY_LOSS_PERCENT = 3,
     MAX_OPEN_POSITIONS = 3,
     MAX_POSITION_SIZE_LOTS = 1,
     USE_TREND_FILTER = True,
     TREND_EMA_PERIOD = 200,
     TRADE_WITH_TREND_ONLY = True,
     INITIAL_CAPITAL = 10000,
     COMMISSION_PER_LOT = 7,
     USE_TIME_EXIT = True,
     EXIT_BEFORE_CLOSE_MINUTES = 30,
     USE_TRAILING_STOP = True,
     TRAILING_STOP_ACTIVATION_RR = 1,
     TRAILING_STOP_DISTANCE_PIPS = 10 \<rparr>"

text \<open>
  One row of the OHLC dataframe; the dataframe is the list of its rows in index order,
  each with its timestamp.
\<close>

record bar =
  bar_open :: real
  high :: real
  low :: real
  close :: real

type_synonym dataframe = "(datetime \<times> bar) list"

datatype error = ValueError string | KeyError string

subsection \<open>risk\_management.py: Position and Trade\<close>

text \<open>
  \<open>position_id\<close> is the text \<open>f"{symbol}_{entry_time:%Y%m%d_%H%M%S}"\<close>; it is kept
  as the pair it is formatted from, and \<open>None\<close> when absent.
\<close>

record Position =
  symbol :: string
  side :: string
  entry_price :: real
  stop_loss :: real
  take_profit :: real
  size_lots :: real
  entry_time :: datetime
  position_id :: "(string \<times> datetime) option"

definition risk_pips :: "Position \<Rightarrow> real" where
  "risk_pips p = \<bar>entry_price p - stop_loss p\<bar> * 10000"

definition current_risk_amount :: "Position \<Rightarrow> real" where
  "current_risk_amount p = (let pip_value = 10 * size_lots p in risk_pips p * pip_value)"

definition calculate_pnl :: "Position \<Rightarrow> real \<Rightarrow> real" where
  "calculate_pnl p current_price =
     (if side p = ''LONG'' then (current_price - entry_price p) * 10000
      else (entry_price p - current_price) * 10000)"

record Trade =
  trade_symbol :: string
  trade_side :: string
  trade_entry_price :: real
  exit_price :: real
  trade_stop_loss :: real
  trade_take_profit :: real
  trade_size_lots :: real
  trade_entry_time :: datetime
  exit_time :: datetime
  pnl_pips :: real
  pnl_amount :: real
  exit_reason :: string
  commission :: real

definition net_pnl :: "Trade \<Rightarrow> real" where
  "net_pnl t = pnl_amount t - commission t"

definition was_winner :: "Trade \<Rightarrow> bool" where
  "was_winner t = (net_pnl t > 0)"

subsection \<open>risk\_management.py: RiskManager\<close>

record RiskManager =
  initial_capital :: real
  current_equity :: real
  open_positions :: "Position list"
  closed_trades :: "Trade list"
  daily_pnl :: "int \<rightharpoonup> real"

definition RiskManager_init :: "real \<Rightarrow> RiskManager" where
  "RiskManager_init capital = \<lparr>
     initial_capital = capital,
     current_equity = capital,
     open_positions = [],
     closed_trades = [],
     daily_pnl = Map.empty \<rparr>"

definition total_pnl :: "RiskManager \<Rightarrow> real" where
  "total_pnl rm = sum_list (map net_pnl (closed_trades rm))"

definition open_risk :: "RiskManager \<Rightarrow> real" where
  "open_risk rm = sum_list (map current_risk_amount (open_positions rm))"

text \<open>Python's \<open>round(x, 2)\<close>: to the nearest hundredth, a tie to the even one.\<close>

definition round2 :: "real \<Rightarrow> real" where
  "round2 x =
     (let y = x * 100; f = \<lfloor>y\<rfloor>; r = y - of_int f
      in of_int (if r < 1 / 2 then f else if 1 / 2 < r then f + 1
                 else if even f then f else f + 1) / 100)"

definition calculate_position_size :: "config \<Rightarrow> RiskManager \<Rightarrow> real \<Rightarrow> real \<Rightarrow> real" where
  "calculate_position_size cfg rm entry stop =
     (let risk_percent = RISK_PER_TRADE_PERCENT cfg;
          risk_amount = current_equity rm * (risk_percent / 100);
          rpips = \<bar>entry - stop\<bar> * 10000
      in if rpips = 0 then 0
         else
           let pip_value_per_lot = 10;
               position_size = risk_amount / (rpips * pip_value_per_lot);
               position_size = min position_size (MAX_POSITION_SIZE_LOTS cfg);
               simple_size = (current_equity rm / 100) * POSITION_SIZE_PER_100 cfg;
               position_size = min position_size simple_size
           in round2 position_size)"

text \<open>
  The daily loss test divides by the equity. The operands are numpy floats once a trade
  has closed, so a zero equity gives an infinity of the sign of the day's result (or
  NaN for 0/0) and no exception; the comparison with the negated limit is then true
  exactly for a negative day. The reason strings are given without the interpolated
  limit.
\<close>

definition can_open_position :: "config \<Rightarrow> RiskManager \<Rightarrow> real \<Rightarrow> int \<Rightarrow> bool \<times> string" where
  "can_open_position cfg rm risk_amount current_date =
     (if int (length (open_positions rm)) \<ge> MAX_OPEN_POSITIONS cfg
      then (False, ''Maximum open positions reached'')
      else if (case daily_pnl rm current_date of
                 None \<Rightarrow> False
               | Some day_pnl \<Rightarrow>
                   (if current_equity rm = 0 then day_pnl < 0
                    else (day_pnl / current_equity rm) * 100 \<le> - MAX_DAILY_LOSS_PERCENT cfg))
      then (False, ''Daily loss limit reached'')
      else
        let total_risk_after = open_risk rm + risk_amount;
            max_allowed_risk = current_equity rm *
              (RISK_PER_TRADE_PERCENT cfg * of_int (MAX_OPEN_POSITIONS cfg) / 100)
        in if total_risk_after > max_allowed_risk
           then (False, ''Total risk exposure too high'')
           else (True, ''OK''))"

definition open_position ::
  "config \<Rightarrow> string \<Rightarrow> string \<Rightarrow> real \<Rightarrow> real \<Rightarrow> real \<Rightarrow> datetime \<Rightarrow> real option
     \<Rightarrow> RiskManager \<Rightarrow> Position option \<times> RiskManager" where
  "open_position cfg smb sd entry stop target etime size_opt rm =
     (let lots = (case size_opt of None \<Rightarrow> calculate_position_size cfg rm entry stop
                                 | Some s \<Rightarrow> s)
      in if lots = 0 then (None, rm)
         else
           let position = \<lparr> symbol = smb, side = sd, entry_price = entry, stop_loss = stop,
                            take_profit = target, size_lots = lots, entry_time = etime,
                            position_id = Some (smb, etime) \<rparr>;
               (can_open, reason) =
                  can_open_position cfg rm (current_risk_amount position) (date_of etime)
           in if \<not> can_open then (None, rm)
              else (Some position, rm\<lparr>open_positions := open_positions rm @ [position]\<rparr>))"

text \<open>
  The Trade that \<open>close_position\<close> builds, before it touches the manager's state.
\<close>

definition make_trade :: "config \<Rightarrow> Position \<Rightarrow> real \<Rightarrow> datetime \<Rightarrow> string \<Rightarrow> Trade" where
  "make_trade cfg position xprice xtime reason =
     (let ppips = (if side position = ''LONG'' then (xprice - entry_price position) * 10000
                   else (entry_price position - xprice) * 10000);
          pip_value = 10 * size_lots position;
          pamount = ppips * pip_value;
          comm = COMMISSION_PER_LOT cfg * size_lots position
      in \<lparr> trade_symbol = symbol position, trade_side = side position,
           trade_entry_price = entry_price position, exit_price = xprice,
           trade_stop_loss = stop_loss position, trade_take_profit = take_profit position,
           trade_size_lots = size_lots position, trade_entry_time = entry_time position,
           exit_time = xtime, pnl_pips = ppips, pnl_amount = pamount,
           exit_reason = reason, commission = comm \<rparr>)"

text \<open>
  \<open>close_position\<close> updates the equity and the day's bucket, then calls
  \<open>list.remove\<close>, which deletes the first entry equal to the position (dataclass
  equality, all fields) and raises ValueError when there is none, and only then appends
  the trade. The result is the outcome together with the manager as the call leaves it,
  also when it raises.
\<close>

definition close_position ::
  "config \<Rightarrow> Position \<Rightarrow> real \<Rightarrow> datetime \<Rightarrow> string \<Rightarrow> RiskManager
     \<Rightarrow> (error + Trade) \<times> RiskManager" where
  "close_position cfg position xprice xtime reason rm =
     (let trade = make_trade cfg position xprice xtime reason;
          trade_date = date_of xtime;
          rm1 = rm\<lparr>current_equity := current_equity rm + net_pnl trade\<rparr>;
          bucket = (case daily_pnl rm1 trade_date of None \<Rightarrow> 0 | Some v \<Rightarrow> v);
          rm2 = rm1\<lparr>daily_pnl := (daily_pnl rm1)(trade_date \<mapsto> bucket + net_pnl trade)\<rparr>
      in if position \<notin> set (open_positions rm2)
         then (Inl (ValueError ''list.remove(x): x not in list''), rm2)
         else
           let rm3 = rm2\<lparr>open_positions := remove1 position (open_positions rm2)\<rparr>
           in (Inr trade, rm3\<lparr>closed_trades := closed_trades rm3 @ [trade]\<rparr>))"

text \<open>
  \<open>update_trailing_stop\<close> reads the configuration and the position only, and writes
  the position's stop; it returns the flag and the position as the call leaves it.
\<close>

definition update_trailing_stop :: "config \<Rightarrow> Position \<Rightarrow> real \<Rightarrow> bool \<times> Position" where
  "update_trailing_stop cfg position current_price =
     (if \<not> USE_TRAILING_STOP cfg then (False, position)
      else
        let ppips = calculate_pnl position current_price;
            activation_pips = risk_pips position * TRAILING_STOP_ACTIVATION_RR cfg
        in if ppips < activation_pips then (False, position)
           else
             let trail_distance = TRAILING_STOP_DISTANCE_PIPS cfg / 10000
             in if side position = ''LONG''
                then (let new_stop = current_price - trail_distance
                      in if new_stop > stop_loss position
                         then (True, position\<lparr>stop_loss := new_stop\<rparr>)
                         else (False, position))
                else (let new_stop = current_price + trail_distance
                      in if new_stop < stop_loss position
                         then (True, position\<lparr>stop_loss := new_stop\<rparr>)
                         else (False, position)))"

definition reset :: "RiskManager \<Rightarrow> RiskManager" where
  "reset rm = rm\<lparr>current_equity := initial_capital rm, open_positions := [],
                 closed_trades := [], daily_pnl := Map.empty\<rparr>"

subsection \<open>strategy.py\<close>

datatype SignalType = NONE | LONG | SHORT

record AsianRange =
  range_high :: real
  range_low :: real
  range_timestamp :: datetime

definition range_pips :: "AsianRange \<Rightarrow> real" where
  "range_pips r = (range_high r - range_low r) * 10000"

definition is_valid :: "config \<Rightarrow> AsianRange \<Rightarrow> bool" where
  "is_valid cfg r = (MIN_RANGE_PIPS cfg \<le> range_pips r \<and> range_pips r \<le> MAX_RANGE_PIPS cfg)"

record TradeSignal =
  signal_type :: SignalType
  signal_timestamp :: datetime
  signal_entry_price :: real
  signal_stop_loss :: real
  signal_take_profit :: real
  asian_range :: AsianRange

definition signal_risk_pips :: "TradeSignal \<Rightarrow> real" where
  "signal_risk_pips s = \<bar>signal_entry_price s - signal_stop_loss s\<bar> * 10000"

definition reward_pips :: "TradeSignal \<Rightarrow> real" where
  "reward_pips s = \<bar>signal_take_profit s - signal_entry_price s\<bar> * 10000"

definition risk_reward_ratio :: "TradeSignal \<Rightarrow> real" where
  "risk_reward_ratio s =
     (if signal_risk_pips s = 0 then 0 else reward_pips s / signal_risk_pips s)"

record LondonBreakoutStrategy =
  strategy_symbol :: string
  current_range :: "AsianRange option"
  last_signal_date :: "int option"

definition LondonBreakoutStrategy_init :: "string \<Rightarrow> LondonBreakoutStrategy" where
  "LondonBreakoutStrategy_init smb =
     \<lparr> strategy_symbol = smb, current_range = None, last_signal_date = None \<rparr>"

fun max_of :: "real list \<Rightarrow> real" where
  "max_of [] = 0"
| "max_of (x # xs) = foldl max x xs"

fun min_of :: "real list \<Rightarrow> real" where
  "min_of [] = 0"
| "min_of (x # xs) = foldl min x xs"

definition identify_asian_range :: "config \<Rightarrow> dataframe \<Rightarrow> datetime \<Rightarrow> AsianRange option" where
  "identify_asian_range cfg df target_date =
     (let asian_start = combine (date_of target_date) (ASIAN_SESSION_START cfg);
          asian_end = combine (date_of target_date) (ASIAN_SESSION_END cfg);
          asian_data = filter (\<lambda>(ts, b). asian_start \<le> ts \<and> ts < asian_end) df
      in if asian_data = [] then None
         else
           let r = \<lparr> range_high = max_of (map (high \<circ> snd) asian_data),
                     range_low = min_of (map (low \<circ> snd) asian_data),
                     range_timestamp = asian_end \<rparr>
           in if is_valid cfg r then Some r else None)"

text \<open>
  \<open>ewm(span=N, adjust=False).mean()\<close> is the recursion \<open>y\<^sub>0 = x\<^sub>0\<close>,
  \<open>y\<^sub>t = (1 - \<alpha>) y\<^sub>t\<^sub>-\<^sub>1 + \<alpha> x\<^sub>t\<close> with \<open>\<alpha> = 2 / (N + 1)\<close>; \<open>ema_last\<close> is its
  last value. pandas rejects a span below 1 with ValueError.
\<close>

fun ema_last :: "real \<Rightarrow> real list \<Rightarrow> real" where
  "ema_last alpha [] = 0"
| "ema_last alpha (x # xs) = foldl (\<lambda>y v. (1 - alpha) * y + alpha * v) x xs"

definition calculate_trend_direction :: "config \<Rightarrow> dataframe \<Rightarrow> datetime \<Rightarrow> error + int" where
  "calculate_trend_direction cfg df timestamp =
     (if \<not> USE_TREND_FILTER cfg then Inr 0
      else
        let historical = filter (\<lambda>(ts, b). ts \<le> timestamp) df
        in if int (length historical) < TREND_EMA_PERIOD cfg then Inr 0
           else if TREND_EMA_PERIOD cfg < 1 then Inl (ValueError ''span must satisfy: span >= 1'')
           else
             let closes = map (close \<circ> snd) historical;
                 current_ema = ema_last (2 / (of_int (TREND_EMA_PERIOD cfg) + 1)) closes;
                 current_price = last closes
             in if current_price > current_ema then Inr 1
                else if current_price < current_ema then Inr (- 1)
                else Inr 0)"

definition check_breakout :: "config \<Rightarrow> bar \<Rightarrow> AsianRange \<Rightarrow> SignalType" where
  "check_breakout cfg current_bar r =
     (let breakout_buffer = BREAKOUT_BUFFER_PIPS cfg / 10000
      in if close current_bar > range_high r + breakout_buffer then LONG
         else if close current_bar < range_low r - breakout_buffer then SHORT
         else NONE)"

definition calculate_position_levels ::
  "config \<Rightarrow> SignalType \<Rightarrow> real \<Rightarrow> AsianRange \<Rightarrow> real \<times> real" where
  "calculate_position_levels cfg st entry r =
     (case st of
        LONG \<Rightarrow> (let stop = range_low r; risk = entry - stop
                 in (stop, entry + risk * RISK_REWARD_RATIO cfg))
      | SHORT \<Rightarrow> (let stop = range_high r; risk = stop - entry
                  in (stop, entry - risk * RISK_REWARD_RATIO cfg))
      | NONE \<Rightarrow> (0, 0))"

text \<open>
  \<open>generate_signal\<close> returns its outcome and the strategy as the call leaves it.
  \<open>df.loc[current_time]\<close> is one row when the timestamp occurs once in the index; when
  it occurs several times pandas hands back all of them, and the comparison in
  \<open>check_breakout\<close> then raises ValueError (the truth value of a Series is ambiguous),
  after \<open>current_range\<close> has been stored.
\<close>

definition generate_signal ::
  "config \<Rightarrow> dataframe \<Rightarrow> datetime \<Rightarrow> LondonBreakoutStrategy
     \<Rightarrow> (error + TradeSignal option) \<times> LondonBreakoutStrategy" where
  "generate_signal cfg df current_time st =
     (if last_signal_date st = Some (date_of current_time) then (Inr None, st)
      else
        let current_hour = time_of current_time;
            london_open = LONDON_OPEN cfg;
            london_window_end =
              time_of (combine (date_of current_time) london_open
                       + TRADING_WINDOW_HOURS cfg * 3600000000)
        in if \<not> (london_open \<le> current_hour \<and> current_hour \<le> london_window_end)
           then (Inr None, st)
           else
             let st1 = (if current_range st = None
                           \<or> date_of (range_timestamp (the (current_range st)))
                               \<noteq> date_of current_time
                        then st\<lparr>current_range := identify_asian_range cfg df current_time\<rparr>
                        else st)
             in case current_range st1 of
                  None \<Rightarrow> (Inr None, st1)
                | Some r \<Rightarrow>
                    (case filter (\<lambda>(ts, b). ts = current_time) df of
                       [] \<Rightarrow> (Inr None, st1)
                     | [(ts, current_bar)] \<Rightarrow>
                         (let sty = check_breakout cfg current_bar r
                          in if sty = NONE then (Inr None, st1)
                             else
                               case (if TRADE_WITH_TREND_ONLY cfg
                                     then calculate_trend_direction cfg df current_time
                                     else Inr 0) of
                                 Inl e \<Rightarrow> (Inl e, st1)
                               | Inr trend \<Rightarrow>
                                   if TRADE_WITH_TREND_ONLY cfg
                                      \<and> ((sty = LONG \<and> trend = - 1) \<or> (sty = SHORT \<and> trend = 1))
                                   then (Inr None, st1)
                                   else
                                     let entry = close current_bar;
                                         (stop, target) =
                                            calculate_position_levels cfg sty entry r;
                                         trade_signal =
                                           \<lparr> signal_type = sty, signal_timestamp = current_time,
                                             signal_entry_price = entry,
                                             signal_stop_loss = stop,
                                             signal_take_profit = target, asian_range = r \<rparr>
                                     in if risk_reward_ratio trade_signal < MIN_RISK_REWARD cfg
                                        then (Inr None, st1)
                                        else (Inr (Some trade_signal),
                                              st1\<lparr>last_signal_date :=
                                                     Some (date_of current_time)\<rparr>))
                     | _ \<Rightarrow> (Inl (ValueError ''The truth value of a Series is ambiguous''),
                            st1)))"

definition should_exit_time_based :: "config \<Rightarrow> datetime \<Rightarrow> bool" where
  "should_exit_time_based cfg current_time =
     (if \<not> USE_TIME_EXIT cfg then False
      else
        let exit_at = combine (date_of current_time) (LONDON_CLOSE cfg)
                      - EXIT_BEFORE_CLOSE_MINUTES cfg * 60000000
        in current_time \<ge> exit_at)"

definition strategy_reset :: "LondonBreakoutStrategy \<Rightarrow> LondonBreakoutStrategy" where
  "strategy_reset st = st\<lparr>current_range := None, last_signal_date := None\<rparr>"

subsection \<open>backtest.py: the bar loop\<close>

record BacktestEngine =
  engine_symbol :: string
  engine_initial_capital :: real
  strategy :: LondonBreakoutStrategy
  risk_manager :: RiskManager
  equity_curve :: "real list"
  dates :: "datetime list"

text \<open>\<open>initial_capital or config.INITIAL_CAPITAL\<close>: an absent or zero capital is replaced.\<close>

definition BacktestEngine_init :: "config \<Rightarrow> string \<Rightarrow> real option \<Rightarrow> BacktestEngine" where
  "BacktestEngine_init cfg smb capital =
     (let cap = (case capital of None \<Rightarrow> INITIAL_CAPITAL cfg
                               | Some c \<Rightarrow> if c = 0 then INITIAL_CAPITAL cfg else c)
      in \<lparr> engine_symbol = smb, engine_initial_capital = cap,
           strategy = LondonBreakoutStrategy_init smb,
           risk_manager = RiskManager_init cap,
           equity_curve = [], dates = [] \<rparr>)"

text \<open>
  Lines 98 to 120 of \<open>_process_bar\<close>: the exit price and reason chosen for one
  position on one bar, or \<open>None\<close> when no exit triggers.
\<close>

definition check_exit :: "config \<Rightarrow> datetime \<Rightarrow> bar \<Rightarrow> Position \<Rightarrow> (real \<times> string) option" where
  "check_exit cfg current_time b position =
     (let hit =
        (if side position = ''LONG''
         then (if low b \<le> stop_loss position then Some (stop_loss position, ''SL'')
               else if high b \<ge> take_profit position then Some (take_profit position, ''TP'')
               else None)
         else (if high b \<ge> stop_loss position then Some (stop_loss position, ''SL'')
               else if low b \<le> take_profit position then Some (take_profit position, ''TP'')
               else None))
      in if hit = None \<and> should_exit_time_based cfg current_time
         then Some (close b, ''TIME'')
         else hit)"

text \<open>
  The loop over \<open>open_positions.copy()\<close>. The copy is shallow: its entries are the
  objects of the live list. \<open>i\<close> is the index at which the object being visited sits
  in the live list: the entries before it were visited on this bar and kept, the
  entries from it on are the unvisited rest of the copy, unchanged since the copy was
  taken. A kept position is written through by \<open>update_trailing_stop\<close>, so the live
  entry at \<open>i\<close> changes; a closed one shortens the live list at or before \<open>i\<close>, so
  the next object is at \<open>i\<close> again.
\<close>

fun process_positions ::
  "config \<Rightarrow> datetime \<Rightarrow> bar \<Rightarrow> nat \<Rightarrow> Position list \<Rightarrow> RiskManager
     \<Rightarrow> (error + unit) \<times> RiskManager" where
  "process_positions cfg current_time b i [] rm = (Inr (), rm)"
| "process_positions cfg current_time b i (position # rest) rm =
     (case check_exit cfg current_time b position of
        None \<Rightarrow>
          process_positions cfg current_time b (Suc i) rest
            (rm\<lparr>open_positions :=
                  (open_positions rm)[i := snd (update_trailing_stop cfg position (close b))]\<rparr>)
      | Some (xprice, reason) \<Rightarrow>
          (case close_position cfg position xprice current_time reason rm of
             (Inl e, rm') \<Rightarrow> (Inl e, rm')
           | (Inr t, rm') \<Rightarrow> process_positions cfg current_time b i rest rm'))"

definition execute_signal :: "config \<Rightarrow> TradeSignal \<Rightarrow> datetime \<Rightarrow> BacktestEngine \<Rightarrow> BacktestEngine" where
  "execute_signal cfg sg current_time e =
     (let sd = (if signal_type sg = LONG then ''LONG'' else ''SHORT'');
          (position, rm') =
             open_position cfg (engine_symbol e) sd (signal_entry_price sg)
               (signal_stop_loss sg) (signal_take_profit sg) current_time None
               (risk_manager e)
      in e\<lparr>risk_manager := rm'\<rparr>)"

definition process_bar ::
  "config \<Rightarrow> dataframe \<Rightarrow> datetime \<Rightarrow> bar \<Rightarrow> BacktestEngine \<Rightarrow> (error + unit) \<times> BacktestEngine" where
  "process_bar cfg df current_time b e =
     (let e1 = e\<lparr>equity_curve := equity_curve e @ [current_equity (risk_manager e)],
                 dates := dates e @ [current_time]\<rparr>
      in case process_positions cfg current_time b 0 (open_positions (risk_manager e1))
                (risk_manager e1) of
           (Inl err, rm') \<Rightarrow> (Inl err, e1\<lparr>risk_manager := rm'\<rparr>)
         | (Inr u, rm') \<Rightarrow>
             (let e2 = e1\<lparr>risk_manager := rm'\<rparr>;
                  open_symbols = map symbol (open_positions rm')
              in if engine_symbol e2 \<notin> set open_symbols
                 then (case generate_signal cfg df current_time (strategy e2) of
                         (Inl err, st') \<Rightarrow> (Inl err, e2\<lparr>strategy := st'\<rparr>)
                       | (Inr None, st') \<Rightarrow> (Inr (), e2\<lparr>strategy := st'\<rparr>)
                       | (Inr (Some sg), st') \<Rightarrow>
                           (Inr (), execute_signal cfg sg current_time (e2\<lparr>strategy := st'\<rparr>)))
                 else (Inr (), e2)))"

text \<open>\<open>for current_time, bar in df.iterrows()\<close>, over the rows still to come.\<close>

fun run_bars ::
  "config \<Rightarrow> dataframe \<Rightarrow> (datetime \<times> bar) list \<Rightarrow> BacktestEngine
     \<Rightarrow> (error + unit) \<times> BacktestEngine" where
  "run_bars cfg df [] e = (Inr (), e)"
| "run_bars cfg df ((current_time, b) # rows) e =
     (case process_bar cfg df current_time b e of
        (Inl err, e') \<Rightarrow> (Inl err, e')
      | (Inr u, e') \<Rightarrow> run_bars cfg df rows e')"

text \<open>The closing loop at the end of the data, over a copy of the open positions.\<close>

fun close_remaining ::
  "config \<Rightarrow> real \<Rightarrow> datetime \<Rightarrow> Position list \<Rightarrow> RiskManager \<Rightarrow> (error + unit) \<times> RiskManager" where
  "close_remaining cfg last_price last_time [] rm = (Inr (), rm)"
| "close_remaining cfg last_price last_time (position # rest) rm =
     (case close_position cfg position last_price last_time ''END'' rm of
        (Inl e, rm') \<Rightarrow> (Inl e, rm')
      | (Inr t, rm') \<Rightarrow> close_remaining cfg last_price last_time rest rm')"

subsection \<open>Statistics and the report\<close>

text \<open>
  The values a result dictionary holds; a dictionary is a map from its keys.
  \<open>VInf\<close> is \<open>float('inf')\<close>.
\<close>

datatype pyval =
    VInt int
  | VFloat real
  | VInf
  | VSeries "(datetime \<times> real) list"
  | VTrades "Trade list"

type_synonym results = "string \<rightharpoonup> pyval"

definition mean :: "real list \<Rightarrow> real" where
  "mean xs = sum_list xs / of_nat (length xs)"

definition win_rate :: "RiskManager \<Rightarrow> real" where
  "win_rate rm =
     (if closed_trades rm = [] then 0
      else (of_nat (length (filter was_winner (closed_trades rm)))
            / of_nat (length (closed_trades rm))) * 100)"

definition average_win :: "RiskManager \<Rightarrow> real" where
  "average_win rm =
     (let winners = map net_pnl (filter was_winner (closed_trades rm))
      in if winners \<noteq> [] then mean winners else 0)"

definition average_loss :: "RiskManager \<Rightarrow> real" where
  "average_loss rm =
     (let losers = map net_pnl (filter (\<lambda>t. \<not> was_winner t) (closed_trades rm))
      in if losers \<noteq> [] then mean losers else 0)"

definition profit_factor :: "RiskManager \<Rightarrow> pyval" where
  "profit_factor rm =
     (let gross_profit = sum_list (map net_pnl (filter was_winner (closed_trades rm)));
          gross_loss = \<bar>sum_list (map net_pnl (filter (\<lambda>t. \<not> was_winner t) (closed_trades rm)))\<bar>
      in if gross_loss = 0 then (if gross_profit > 0 then VInf else VFloat 0)
         else VFloat (gross_profit / gross_loss))"

text \<open>
  \<open>get_statistics\<close>. With no closed trade it returns the four keys of its first
  \<open>return\<close> only. The percentages divide by the initial capital; for a zero capital
  numpy gives an infinity or NaN where this model has HOL's \<open>x / 0 = 0\<close>.
\<close>

definition get_statistics :: "RiskManager \<Rightarrow> results" where
  "get_statistics rm =
     (if closed_trades rm = []
      then map_of [(''total_trades'', VInt 0), (''win_rate'', VFloat 0),
                   (''total_pnl'', VFloat 0), (''profit_factor'', VFloat 0)]
      else
        let winners = filter was_winner (closed_trades rm);
            losers = filter (\<lambda>t. \<not> was_winner t) (closed_trades rm)
        in map_of [
             (''total_trades'', VInt (int (length (closed_trades rm)))),
             (''winners'', VInt (int (length winners))),
             (''losers'', VInt (int (length losers))),
             (''win_rate'', VFloat (win_rate rm)),
             (''total_pnl'', VFloat (total_pnl rm)),
             (''total_pnl_percent'', VFloat ((total_pnl rm / initial_capital rm) * 100)),
             (''profit_factor'', profit_factor rm),
             (''average_win'', VFloat (average_win rm)),
             (''average_loss'', VFloat (average_loss rm)),
             (''largest_win'', VFloat (if winners = [] then 0 else max_of (map net_pnl winners))),
             (''largest_loss'', VFloat (if losers = [] then 0 else min_of (map net_pnl losers))),
             (''average_trade'', VFloat (mean (map net_pnl (closed_trades rm)))),
             (''current_equity'', VFloat (current_equity rm)),
             (''return_percent'',
                VFloat (((current_equity rm - initial_capital rm) / initial_capital rm) * 100))])"

text \<open>
  The pandas computations of \<open>_generate_results\<close>, in exact arithmetic:
  \<open>expanding().max()\<close>, \<open>pct_change().dropna()\<close>, and \<open>std()\<close>, which is the sample
  deviation and is NaN (\<open>None\<close> here, and then not greater than 0) for fewer than two
  values. A zero running maximum or a zero equity as denominator, where pandas gives an
  infinity or NaN, is outside the model.
\<close>

fun expanding_max :: "real list \<Rightarrow> real list" where
  "expanding_max [] = []"
| "expanding_max (x # xs) = x # map (max x) (expanding_max xs)"

fun pct_change :: "real list \<Rightarrow> real list" where
  "pct_change (x # y # ys) = (y / x - 1) # pct_change (y # ys)"
| "pct_change xs = []"

definition std :: "real list \<Rightarrow> real option" where
  "std xs =
     (if length xs < 2 then None
      else Some (sqrt (sum_list (map (\<lambda>x. (x - mean xs)\<^sup>2) xs) / (of_nat (length xs) - 1))))"

definition std_positive :: "real list \<Rightarrow> bool" where
  "std_positive xs = (case std xs of None \<Rightarrow> False | Some s \<Rightarrow> s > 0)"

fun calculate_consecutive_loop :: "Trade list \<Rightarrow> nat \<Rightarrow> nat \<Rightarrow> nat \<Rightarrow> nat \<Rightarrow> nat \<times> nat" where
  "calculate_consecutive_loop [] max_wins max_losses current_wins current_losses =
     (max_wins, max_losses)"
| "calculate_consecutive_loop (t # ts) max_wins max_losses current_wins current_losses =
     (if was_winner t
      then calculate_consecutive_loop ts (max max_wins (current_wins + 1)) max_losses
             (current_wins + 1) 0
      else calculate_consecutive_loop ts max_wins (max max_losses (current_losses + 1))
             0 (current_losses + 1))"

definition calculate_consecutive_trades :: "RiskManager \<Rightarrow> nat \<times> nat" where
  "calculate_consecutive_trades rm =
     (if closed_trades rm = [] then (0, 0)
      else calculate_consecutive_loop (closed_trades rm) 0 0 0 0)"

definition generate_results :: "dataframe \<Rightarrow> BacktestEngine \<Rightarrow> results" where
  "generate_results df e =
     (let stats = get_statistics (risk_manager e);
          equity = equity_curve e;
          running_max = expanding_max equity;
          drawdown = map (\<lambda>(v, m). (v - m) / m * 100) (zip equity running_max);
          max_drawdown = min_of drawdown;
          returns = pct_change equity;
          sharpe_ratio =
            (if length returns > 0
             then (if std_positive returns
                   then sqrt 252 * (mean returns / the (std returns)) else 0)
             else 0);
          negative_returns = filter (\<lambda>r. r < 0) returns;
          sortino_ratio =
            (if length negative_returns > 0 \<and> std_positive negative_returns
             then sqrt 252 * (mean returns / the (std negative_returns)) else 0);
          (consecutive_wins, consecutive_losses) =
             calculate_consecutive_trades (risk_manager e);
          idxmin = length (takeWhile (\<lambda>v. v \<noteq> min_of equity) equity)
      in stats ++ map_of [
           (''max_drawdown'', VFloat max_drawdown),
           (''max_drawdown_amount'', VFloat (min_of equity - running_max ! idxmin)),
           (''sharpe_ratio'', VFloat sharpe_ratio),
           (''sortino_ratio'', VFloat sortino_ratio),
           (''max_consecutive_wins'', VInt (int consecutive_wins)),
           (''max_consecutive_losses'', VInt (int consecutive_losses)),
           (''total_days'', VInt ((fst (last df) - fst (hd df)) div DAY)),
           (''equity_curve'', VSeries (zip (dates e) equity)),
           (''trades'', VTrades (closed_trades (risk_manager e)))])"

text \<open>
  \<open>_print_results\<close> reads these keys in this order; the first one the dictionary does
  not have raises KeyError.
\<close>

definition printed_keys :: "string list" where
  "printed_keys =
     [''total_trades'', ''winners'', ''losers'', ''win_rate'', ''profit_factor'',
      ''average_win'', ''average_loss'', ''largest_win'', ''largest_loss'',
      ''total_pnl'', ''total_pnl_percent'', ''current_equity'', ''return_percent'',
      ''max_drawdown'', ''sharpe_ratio'', ''sortino_ratio'',
      ''max_consecutive_wins'', ''max_consecutive_losses'']"

definition print_results :: "results \<Rightarrow> error + unit" where
  "print_results res =
     (case find (\<lambda>k. res k = None) printed_keys of
        Some k \<Rightarrow> Inl (KeyError k)
      | None \<Rightarrow> Inr ())"

subsection \<open>backtest.py: run\<close>

text \<open>
  \<open>start_date\<close> and \<open>end_date\<close> are the timestamps the date strings denote;
  \<open>None\<close> stands for an absent or empty string. The result is the outcome (the
  exception raised or the dictionary returned) and the engine as the call leaves it.
\<close>

definition filter_dates :: "dataframe \<Rightarrow> datetime option \<Rightarrow> datetime option \<Rightarrow> dataframe" where
  "filter_dates df start_date end_date =
     (let df1 = (case start_date of None \<Rightarrow> df
                                  | Some s \<Rightarrow> filter (\<lambda>(ts, b). ts \<ge> s) df);
          df2 = (case end_date of None \<Rightarrow> df1
                                | Some u \<Rightarrow> filter (\<lambda>(ts, b). ts \<le> u) df1)
      in df2)"

definition run ::
  "config \<Rightarrow> dataframe \<Rightarrow> datetime option \<Rightarrow> datetime option \<Rightarrow> BacktestEngine
     \<Rightarrow> (error + results) \<times> BacktestEngine" where
  "run cfg df0 start_date end_date e =
     (let df = filter_dates df0 start_date end_date
      in if df = [] then (Inl (ValueError ''No data available for backtest period''), e)
         else
           case run_bars cfg df df e of
             (Inl err, e1) \<Rightarrow> (Inl err, e1)
           | (Inr u, e1) \<Rightarrow>
               (case close_remaining cfg (close (snd (last df))) (fst (last df))
                       (open_positions (risk_manager e1)) (risk_manager e1) of
                  (Inl err, rm') \<Rightarrow> (Inl err, e1\<lparr>risk_manager := rm'\<rparr>)
                | (Inr u, rm') \<Rightarrow>
                    (let e2 = e1\<lparr>risk_manager := rm'\<rparr>;
                         res = generate_results df e2
                     in case print_results res of
                          Inl err \<Rightarrow> (Inl err, e2)
                        | Inr u \<Rightarrow> (Inr res, e2))))"

subsection \<open>Notions used to state the properties\<close>

text \<open>
  A position after \<open>update_trailing_stop\<close> has been called on it at each price of a
  list, in order.
\<close>

fun trail_through :: "config \<Rightarrow> Position \<Rightarrow> real list \<Rightarrow> Position" where
  "trail_through cfg p [] = p"
| "trail_through cfg p (x # xs) = trail_through cfg (snd (update_trailing_stop cfg p x)) xs"

text \<open>
  \<open>trailed_from cfg p0 p\<close>: \<open>p\<close> is \<open>p0\<close> as opened, or \<open>p0\<close> with its stop at the
  trail distance from a price whose profit reached the activation threshold of \<open>p0\<close>.
\<close>

definition trailed_from :: "config \<Rightarrow> Position \<Rightarrow> Position \<Rightarrow> bool" where
  "trailed_from cfg p0 p =
     (p = p0 \<or>
      (\<exists>y. risk_pips p0 * TRAILING_STOP_ACTIVATION_RR cfg \<le> calculate_pnl p0 y \<and>
           p = p0\<lparr>stop_loss := (if side p0 = ''LONG''
                                  then y - TRAILING_STOP_DISTANCE_PIPS cfg / 10000
                                  else y + TRAILING_STOP_DISTANCE_PIPS cfg / 10000)\<rparr>))"

text \<open>
  The trades one bar closes: for each position of the list, in order, the trade of the
  exit that \<open>check_exit\<close> chooses for it, if any.
\<close>

definition exit_trades :: "config \<Rightarrow> datetime \<Rightarrow> bar \<Rightarrow> Position list \<Rightarrow> Trade list" where
  "exit_trades cfg current_time b ps =
     List.map_filter
       (\<lambda>p. map_option (\<lambda>(xprice, reason). make_trade cfg p xprice current_time reason)
                        (check_exit cfg current_time b p)) ps"

text \<open>The number of positions of a list that are for a symbol.\<close>

definition count_symbol :: "string \<Rightarrow> Position list \<Rightarrow> nat" where
  "count_symbol s ps = length (filter (\<lambda>p. symbol p = s) ps)"

text \<open>The equity is the initial capital plus the net result of the closed trades.\<close>

definition equity_conserved :: "RiskManager \<Rightarrow> bool" where
  "equity_conserved rm =
     (current_equity rm = initial_capital rm + sum_list (map net_pnl (closed_trades rm)))"

text \<open>
  The invariant of the bar loop: equity conservation, the capital the engine was built
  with, and at most one open position, which is for the engine's symbol.
\<close>

definition engine_inv :: "BacktestEngine \<Rightarrow> bool" where
  "engine_inv e =
     (equity_conserved (risk_manager e)
      \<and> initial_capital (risk_manager e) = engine_initial_capital e
      \<and> length (open_positions (risk_manager e)) \<le> 1
      \<and> (\<forall>p \<in> set (open_positions (risk_manager e)). symbol p = engine_symbol e))"

text \<open>A long position used in the examples: entry 1.1000, stop 1.0950, target 1.1100.\<close>

definition example_long :: Position where
  "example_long = \<lparr> symbol = ''EURUSD'', side = ''LONG'', entry_price = 11000 / 10000,
                    stop_loss = 10950 / 10000, take_profit = 11100 / 10000,
                    size_lots = 1 / 10, entry_time = 0, position_id = Some (''EURUSD'', 0) \<rparr>"

definition example_short :: Position where
  "example_short = \<lparr> symbol = ''EURUSD'', side = ''SHORT'', entry_price = 11000 / 10000,
                     stop_loss = 11050 / 10000, take_profit = 10900 / 10000,
                     size_lots = 1 / 10, entry_time = 0, position_id = Some (''EURUSD'', 0) \<rparr>"

text \<open>
  A three-bar day: an Asian-session bar with range 1.1000 to 1.1050, a bar at 08:00 that
  closes at 1.1053, above the range plus the buffer, and a bar at 08:05 whose low of
  1.0990 is below the range low.
\<close>

definition example_df :: dataframe where
  "example_df =
     [(1 * 3600000000,
         \<lparr> bar_open = 11020 / 10000, high = 11050 / 10000,
           low = 11000 / 10000, close = 11030 / 10000 \<rparr>),
      (8 * 3600000000,
         \<lparr> bar_open = 11030 / 10000, high = 11060 / 10000,
           low = 11025 / 10000, close = 11053 / 10000 \<rparr>),
      (8 * 3600000000 + 300000000,
         \<lparr> bar_open = 11053 / 10000, high = 11055 / 10000,
           low = 10990 / 10000, close = 10995 / 10000 \<rparr>)]"

text \<open>A fresh engine with the shipped configuration.\<close>

definition example_engine :: BacktestEngine where
  "example_engine = BacktestEngine_init default_config ''EURUSD'' None"

text \<open>
  A trade filled at its level: a stop-loss exit is priced at the recorded stop, a
  take-profit exit at the recorded target, and the P&L in pips and in money is computed
  from that exit price.
\<close>

definition filled_at_level :: "Trade \<Rightarrow> bool" where
  "filled_at_level tr =
     ((exit_reason tr = ''SL'' \<longrightarrow> exit_price tr = trade_stop_loss tr)
      \<and> (exit_reason tr = ''TP'' \<longrightarrow> exit_price tr = trade_take_profit tr)
      \<and> pnl_pips tr = (if trade_side tr = ''LONG''
                        then (exit_price tr - trade_entry_price tr) * 10000
                        else (trade_entry_price tr - exit_price tr) * 10000)
      \<and> pnl_amount tr = pnl_pips tr * (10 * trade_size_lots tr))"

text \<open>
  Scenario D of the specification: the long position of the examples is open, and the
  next bar has low 1.0940 and high 1.1120, around both its stop and its target.
\<close>

definition scenario_d_bar :: bar where
  "scenario_d_bar = \<lparr> bar_open = 11000 / 10000, high = 11120 / 10000,
                       low = 10940 / 10000, close = 11050 / 10000 \<rparr>"

definition scenario_d_engine :: BacktestEngine where
  "scenario_d_engine =
     example_engine\<lparr>risk_manager :=
       (risk_manager example_engine)\<lparr>open_positions := [example_long]\<rparr>\<rparr>"

text \<open>
  The outcomes of successive calls of \<open>generate_signal\<close> on one strategy, each call
  with its dataframe and timestamp; a call that raises leaves the strategy as it was
  at the raise.
\<close>

fun feed ::
  "config \<Rightarrow> (dataframe \<times> datetime) list \<Rightarrow> LondonBreakoutStrategy
     \<Rightarrow> (error + TradeSignal option) list" where
  "feed cfg [] st = []"
| "feed cfg ((df, t) # calls) st =
     fst (generate_signal cfg df t st) # feed cfg calls (snd (generate_signal cfg df t st))"

text \<open>An outcome that is a signal (not \<open>None\<close>, not an exception).\<close>

definition is_signal :: "error + TradeSignal option \<Rightarrow> bool" where
  "is_signal r = (case r of Inr (Some sg) \<Rightarrow> True | _ \<Rightarrow> False)"

text \<open>
  Two days of bars. Each day has an Asian-session bar with range 1.1000 to 1.1050 and a
  bar at 08:00 that closes above the range plus the buffer; the first day has a second
  such bar at 08:05.
\<close>

definition two_day_df :: dataframe where
  "two_day_df =
     [(1 * 3600000000,
         \<lparr> bar_open = 11020 / 10000, high = 11050 / 10000,
           low = 11000 / 10000, close = 11030 / 10000 \<rparr>),
      (8 * 3600000000,
         \<lparr> bar_open = 11030 / 10000, high = 11060 / 10000,
           low = 11025 / 10000, close = 11053 / 10000 \<rparr>),
      (8 * 3600000000 + 300000000,
         \<lparr> bar_open = 11053 / 10000, high = 11065 / 10000,
           low = 11050 / 10000, close = 11060 / 10000 \<rparr>),
      (86400000000 + 1 * 3600000000,
         \<lparr> bar_open = 11020 / 10000, high = 11050 / 10000,
           low = 11000 / 10000, close = 11030 / 10000 \<rparr>),
      (86400000000 + 8 * 3600000000,
         \<lparr> bar_open = 11030 / 10000, high = 11060 / 10000,
           low = 11025 / 10000, close = 11053 / 10000 \<rparr>)]"

text \<open>A fresh strategy, and the strategy after its first signal, at 08:00 of the first day.\<close>

definition fresh_strategy :: LondonBreakoutStrategy where
  "fresh_strategy = LondonBreakoutStrategy_init ''EURUSD''"

definition signalled_strategy :: LondonBreakoutStrategy where
  "signalled_strategy =
     snd (generate_signal default_config two_day_df (8 * 3600000000) fresh_strategy)"

text \<open>A one-bar series, at midnight: no signal, no trade.\<close>

definition quiet_df :: dataframe where
  "quiet_df = [(0, \<lparr> bar_open = 11020 / 10000, high = 11050 / 10000,
                      low = 11000 / 10000, close = 11030 / 10000 \<rparr>)]"

section \<open>Properties\<close>

subsection \<open>The trailing stop\<close>

lemma trail_through_snoc:
  "trail_through cfg p (xs @ [x]) = snd (update_trailing_stop cfg (trail_through cfg p xs) x)"
  by (induction xs arbitrary: p) simp_all

lemma update_trailing_stop_cases:
  "update_trailing_stop cfg p x = (False, p) \<or>
   (\<exists>s. update_trailing_stop cfg p x = (True, p\<lparr>stop_loss := s\<rparr>) \<and>
        USE_TRAILING_STOP cfg \<and>
        risk_pips p * TRAILING_STOP_ACTIVATION_RR cfg \<le> calculate_pnl p x \<and>
        (if side p = ''LONG''
         then s = x - TRAILING_STOP_DISTANCE_PIPS cfg / 10000 \<and> stop_loss p < s
         else s = x + TRAILING_STOP_DISTANCE_PIPS cfg / 10000 \<and> s < stop_loss p))"
  by (simp add: update_trailing_stop_def Let_def)

lemma trailed_from_fields:
  assumes "trailed_from cfg p0 p"
  shows "side p = side p0" "entry_price p = entry_price p0"
    "p\<lparr>stop_loss := s\<rparr> = p0\<lparr>stop_loss := s\<rparr>"
  using assms by (auto simp: trailed_from_def)

lemma trailed_from_threshold:
  assumes tf: "trailed_from cfg p0 p"
    and act: "risk_pips p * TRAILING_STOP_ACTIVATION_RR cfg \<le> calculate_pnl p x"
    and better: "if side p = ''LONG''
         then stop_loss p < x - TRAILING_STOP_DISTANCE_PIPS cfg / 10000
         else x + TRAILING_STOP_DISTANCE_PIPS cfg / 10000 < stop_loss p"
  shows "risk_pips p0 * TRAILING_STOP_ACTIVATION_RR cfg \<le> calculate_pnl p0 x"
proof -
  from tf consider (same) "p = p0"
    | (moved) y where "risk_pips p0 * TRAILING_STOP_ACTIVATION_RR cfg \<le> calculate_pnl p0 y"
        "p = p0\<lparr>stop_loss := (if side p0 = ''LONG''
                                  then y - TRAILING_STOP_DISTANCE_PIPS cfg / 10000
                                  else y + TRAILING_STOP_DISTANCE_PIPS cfg / 10000)\<rparr>"
    by (auto simp: trailed_from_def)
  then show ?thesis
  proof cases
    case same
    with act show ?thesis by simp
  next
    case moved
    show ?thesis
    proof (cases "side p0 = ''LONG''")
      case True
      with moved(2) better have "y < x" by simp
      then have "calculate_pnl p0 y \<le> calculate_pnl p0 x"
        using True by (simp add: calculate_pnl_def)
      with moved(1) show ?thesis by linarith
    next
      case False
      with moved(2) better have "x < y" by simp
      then have "calculate_pnl p0 y \<le> calculate_pnl p0 x"
        using False by (simp add: calculate_pnl_def)
      with moved(1) show ?thesis by linarith
    qed
  qed
qed

lemma trailed_from_step:
  assumes tf: "trailed_from cfg p0 p"
  shows "trailed_from cfg p0 (snd (update_trailing_stop cfg p x))"
proof -
  from update_trailing_stop_cases[of cfg p x]
  consider (same) "update_trailing_stop cfg p x = (False, p)"
    | (moved) s where "update_trailing_stop cfg p x = (True, p\<lparr>stop_loss := s\<rparr>)"
        "risk_pips p * TRAILING_STOP_ACTIVATION_RR cfg \<le> calculate_pnl p x"
        "if side p = ''LONG''
         then s = x - TRAILING_STOP_DISTANCE_PIPS cfg / 10000 \<and> stop_loss p < s
         else s = x + TRAILING_STOP_DISTANCE_PIPS cfg / 10000 \<and> s < stop_loss p"
    by blast
  then show ?thesis
  proof cases
    case same
    with tf show ?thesis by simp
  next
    case moved
    from moved(3) have better: "if side p = ''LONG''
         then stop_loss p < x - TRAILING_STOP_DISTANCE_PIPS cfg / 10000
         else x + TRAILING_STOP_DISTANCE_PIPS cfg / 10000 < stop_loss p"
      by (simp split: if_splits)
    have thr: "risk_pips p0 * TRAILING_STOP_ACTIVATION_RR cfg \<le> calculate_pnl p0 x"
      by (rule trailed_from_threshold[OF tf moved(2) better])
    have "p\<lparr>stop_loss := s\<rparr> = p0\<lparr>stop_loss := s\<rparr>"
      by (rule trailed_from_fields(3)[OF tf])
    moreover have "s = (if side p0 = ''LONG''
                        then x - TRAILING_STOP_DISTANCE_PIPS cfg / 10000
                        else x + TRAILING_STOP_DISTANCE_PIPS cfg / 10000)"
      using moved(3) trailed_from_fields(1)[OF tf] by (simp split: if_splits)
    ultimately show ?thesis
      using thr moved(1) unfolding trailed_from_def by auto
  qed
qed

lemma trailed_from_trail_through: "trailed_from cfg p0 (trail_through cfg p0 xs)"
proof (induction xs rule: rev_induct)
  case Nil
  show ?case by (simp add: trailed_from_def)
next
  case (snoc x xs)
  then show ?case by (simp add: trail_through_snoc trailed_from_step)
qed

lemma below_threshold_unchanged:
  assumes tf: "trailed_from cfg p0 p"
    and below: "calculate_pnl p0 x < risk_pips p0 * TRAILING_STOP_ACTIVATION_RR cfg"
  shows "update_trailing_stop cfg p x = (False, p)"
proof -
  from update_trailing_stop_cases[of cfg p x]
  consider (same) "update_trailing_stop cfg p x = (False, p)"
    | (moved) s where "update_trailing_stop cfg p x = (True, p\<lparr>stop_loss := s\<rparr>)"
        "risk_pips p * TRAILING_STOP_ACTIVATION_RR cfg \<le> calculate_pnl p x"
        "if side p = ''LONG''
         then s = x - TRAILING_STOP_DISTANCE_PIPS cfg / 10000 \<and> stop_loss p < s
         else s = x + TRAILING_STOP_DISTANCE_PIPS cfg / 10000 \<and> s < stop_loss p"
    by blast
  then show ?thesis
  proof cases
    case same
    then show ?thesis .
  next
    case moved
    from moved(3) have better: "if side p = ''LONG''
         then stop_loss p < x - TRAILING_STOP_DISTANCE_PIPS cfg / 10000
         else x + TRAILING_STOP_DISTANCE_PIPS cfg / 10000 < stop_loss p"
      by (simp split: if_splits)
    have "risk_pips p0 * TRAILING_STOP_ACTIVATION_RR cfg \<le> calculate_pnl p0 x"
      by (rule trailed_from_threshold[OF tf moved(2) better])
    with below show ?thesis by simp
  qed
qed


lemma trail_through_side: "side (trail_through cfg p xs) = side p"
  using trailed_from_fields(1)[OF trailed_from_trail_through] .

lemma update_trailing_stop_monotone:
  "if side p = ''LONG'' then stop_loss p \<le> stop_loss (snd (update_trailing_stop cfg p x))
   else stop_loss (snd (update_trailing_stop cfg p x)) \<le> stop_loss p"
  using update_trailing_stop_cases[of cfg p x] by (auto split: if_splits)

lemma trail_through_monotone:
  "if side p = ''LONG'' then stop_loss p \<le> stop_loss (trail_through cfg p xs)
   else stop_loss (trail_through cfg p xs) \<le> stop_loss p"
proof (induction xs rule: rev_induct)
  case Nil
  show ?case by simp
next
  case (snoc x xs)
  have "if side p = ''LONG''
        then stop_loss (trail_through cfg p xs)
               \<le> stop_loss (snd (update_trailing_stop cfg (trail_through cfg p xs) x))
        else stop_loss (snd (update_trailing_stop cfg (trail_through cfg p xs) x))
               \<le> stop_loss (trail_through cfg p xs)"
    using update_trailing_stop_monotone[of "trail_through cfg p xs" cfg x]
    by (simp add: trail_through_side)
  with snoc show ?case
    by (auto simp: trail_through_snoc split: if_splits)
qed

text \<open>
  C5. A position is opened as \<open>p0\<close> and its stop has since been trailed at any prices
  \<open>xs\<close>. A call of \<open>update_trailing_stop\<close> at a price whose profit in pips is below
  the initial risk of \<open>p0\<close> in pips (entry to the original stop) times
  \<open>TRAILING_STOP_ACTIVATION_RR\<close> returns False and leaves the position as it is. So
  the stop moves only at a price at or above that threshold.
\<close>

theorem trailing_stop_needs_activation:
  assumes "calculate_pnl p0 x < risk_pips p0 * TRAILING_STOP_ACTIVATION_RR cfg"
  shows "update_trailing_stop cfg (trail_through cfg p0 xs) x
           = (False, trail_through cfg p0 xs)"
  using below_threshold_unchanged[OF trailed_from_trail_through assms] .

theorem trailing_stop_needs_activation_witness:
  "calculate_pnl example_long (11040 / 10000)
     < risk_pips example_long * TRAILING_STOP_ACTIVATION_RR default_config
   \<and> stop_loss (trail_through default_config example_long [11060 / 10000]) = 11050 / 10000
   \<and> update_trailing_stop default_config
        (trail_through default_config example_long [11060 / 10000]) (11040 / 10000)
      = (False, trail_through default_config example_long [11060 / 10000])"
proof -
  have below: "calculate_pnl example_long (11040 / 10000)
     < risk_pips example_long * TRAILING_STOP_ACTIVATION_RR default_config"
    by (simp add: calculate_pnl_def risk_pips_def example_long_def default_config_def)
  have moved: "stop_loss (trail_through default_config example_long [11060 / 10000])
                 = 11050 / 10000"
    by (simp add: update_trailing_stop_def calculate_pnl_def risk_pips_def
        example_long_def default_config_def)
  from below moved
    trailing_stop_needs_activation[OF below, where xs = "[11060 / 10000]"]
  show ?thesis by simp
qed

text \<open>
  C6. One call of \<open>update_trailing_stop\<close> either returns False and leaves the position
  as it is, or returns True and changes the stop only, to a strictly higher one for a
  LONG position and to a strictly lower one for any other (SHORT) position. Over any
  sequence of calls the stop is therefore never below where it started for a LONG
  position and never above it for a SHORT one.
\<close>

theorem trailing_stop_never_loosens:
  "(case update_trailing_stop cfg p x of
      (moved, p') \<Rightarrow>
        (if moved
         then p' = p\<lparr>stop_loss := stop_loss p'\<rparr>
              \<and> (if side p = ''LONG'' then stop_loss p < stop_loss p'
                  else stop_loss p' < stop_loss p)
         else p' = p))
   \<and> (if side p = ''LONG'' then stop_loss p \<le> stop_loss (trail_through cfg p xs)
      else stop_loss (trail_through cfg p xs) \<le> stop_loss p)"
proof
  show "case update_trailing_stop cfg p x of
      (moved, p') \<Rightarrow>
        (if moved
         then p' = p\<lparr>stop_loss := stop_loss p'\<rparr>
              \<and> (if side p = ''LONG'' then stop_loss p < stop_loss p'
                  else stop_loss p' < stop_loss p)
         else p' = p)"
    using update_trailing_stop_cases[of cfg p x] by (auto split: if_splits)
  show "if side p = ''LONG'' then stop_loss p \<le> stop_loss (trail_through cfg p xs)
      else stop_loss (trail_through cfg p xs) \<le> stop_loss p"
    by (rule trail_through_monotone)
qed

theorem trailing_stop_never_loosens_witness:
  "update_trailing_stop default_config example_short (10940 / 10000)
     = (True, example_short\<lparr>stop_loss := 10950 / 10000\<rparr>)
   \<and> update_trailing_stop default_config example_long (11060 / 10000)
     = (True, example_long\<lparr>stop_loss := 11050 / 10000\<rparr>)
   \<and> stop_loss (trail_through default_config example_short [10940 / 10000, 10990 / 10000])
       \<le> stop_loss example_short
   \<and> stop_loss (trail_through default_config example_short [10940 / 10000, 10990 / 10000])
       = 10950 / 10000"
proof -
  have s: "update_trailing_stop default_config example_short (10940 / 10000)
     = (True, example_short\<lparr>stop_loss := 10950 / 10000\<rparr>)"
    by (simp add: update_trailing_stop_def calculate_pnl_def risk_pips_def
        example_short_def default_config_def)
  have l: "update_trailing_stop default_config example_long (11060 / 10000)
     = (True, example_long\<lparr>stop_loss := 11050 / 10000\<rparr>)"
    by (simp add: update_trailing_stop_def calculate_pnl_def risk_pips_def
        example_long_def default_config_def)
  have side_short: "side example_short \<noteq> ''LONG''"
    by (simp add: example_short_def)
  have v: "stop_loss (trail_through default_config example_short
                        [10940 / 10000, 10990 / 10000]) = 10950 / 10000"
    by (simp add: s) (simp add: update_trailing_stop_def calculate_pnl_def risk_pips_def
        example_short_def default_config_def)
  from trailing_stop_never_loosens[where cfg = default_config and p = example_short
      and x = "10940 / 10000" and xs = "[10940 / 10000, 10990 / 10000]"] side_short
  have "stop_loss (trail_through default_config example_short [10940 / 10000, 10990 / 10000])
       \<le> stop_loss example_short"
    by simp
  with s l v show ?thesis by simp
qed

subsection \<open>The bar loop\<close>

lemma close_position_open:
  assumes "position \<in> set (open_positions rm)"
  shows "close_position cfg position xprice xtime reason rm =
           (Inr (make_trade cfg position xprice xtime reason),
            rm\<lparr>current_equity :=
                  current_equity rm + net_pnl (make_trade cfg position xprice xtime reason),
                daily_pnl := (daily_pnl rm)(date_of xtime \<mapsto>
                  (case daily_pnl rm (date_of xtime) of None \<Rightarrow> 0 | Some v \<Rightarrow> v)
                  + net_pnl (make_trade cfg position xprice xtime reason)),
                open_positions := remove1 position (open_positions rm),
                closed_trades :=
                  closed_trades rm @ [make_trade cfg position xprice xtime reason]\<rparr>)"
  using assms by (simp add: close_position_def Let_def)

lemma update_trailing_stop_symbol:
  "symbol (snd (update_trailing_stop cfg p x)) = symbol p"
  using update_trailing_stop_cases[of cfg p x] by auto

lemma drop_remove1_visited:
  assumes "drop i xs = p # rest"
  shows "drop i (remove1 p xs) = rest"
proof -
  have len: "i < length xs" using assms by (cases "i < length xs") auto
  have xs: "xs = take i xs @ p # rest"
    using assms by (metis append_take_drop_id)
  show ?thesis
  proof (cases "p \<in> set (take i xs)")
    case True
    then have "remove1 p xs = remove1 p (take i xs) @ p # rest"
      using xs by (metis remove1_append)
    moreover have "length (remove1 p (take i xs)) = i - 1"
      using True len by (simp add: length_remove1)
    moreover have "0 < i" using True by (cases i) auto
    ultimately show ?thesis by simp
  next
    case False
    then have "remove1 p xs = take i xs @ rest"
      using xs by (metis remove1_append remove1.simps(2))
    moreover have "length (take i xs) = i" using len by simp
    ultimately show ?thesis by (metis append_eq_conv_conj)
  qed
qed

lemma count_symbol_remove1: "count_symbol s (remove1 p xs) \<le> count_symbol s xs"
  by (simp add: count_symbol_def filter_remove1 length_remove1)

lemma count_symbol_map:
  "count_symbol s ys = length (filter (\<lambda>n. n = s) (map symbol ys))"
  by (induction ys) (simp_all add: count_symbol_def)

lemma count_symbol_update:
  assumes "i < length xs" "symbol q = symbol (xs ! i)"
  shows "count_symbol s (xs[i := q]) = count_symbol s xs"
proof -
  have "map symbol (xs[i := q]) = map symbol xs"
    using assms by (simp add: map_update list_update_same_conv)
  then show ?thesis
    unfolding count_symbol_map by (rule arg_cong)
qed

lemma exit_trades_Cons:
  "exit_trades cfg t b (p # ps) =
     (case check_exit cfg t b p of
        None \<Rightarrow> exit_trades cfg t b ps
      | Some (xprice, reason) \<Rightarrow> make_trade cfg p xprice t reason # exit_trades cfg t b ps)"
  by (simp add: exit_trades_def split: option.splits)

lemma exit_trades_Nil: "exit_trades cfg t b [] = []"
  by (simp add: exit_trades_def)

lemma process_positions_effect:
  assumes "drop i (open_positions rm) = ps"
  shows "\<exists>rm'. process_positions cfg t b i ps rm = (Inr (), rm')
           \<and> closed_trades rm' = closed_trades rm @ exit_trades cfg t b ps
           \<and> current_equity rm' =
               current_equity rm + sum_list (map net_pnl (exit_trades cfg t b ps))
           \<and> initial_capital rm' = initial_capital rm
           \<and> (\<forall>s. count_symbol s (open_positions rm') \<le> count_symbol s (open_positions rm))
           \<and> length (open_positions rm') \<le> length (open_positions rm)"
  using assms
proof (induction ps arbitrary: i rm)
  case Nil
  show ?case by (simp add: exit_trades_Nil)
next
  case (Cons p rest)
  let ?xs = "open_positions rm"
  have len: "i < length ?xs" using Cons.prems by (cases "i < length ?xs") auto
  have at: "?xs ! i = p" using Cons.prems len by (metis nth_via_drop)
  have rest: "drop (Suc i) ?xs = rest" using Cons.prems by (metis drop_Suc tl_drop list.sel(3))
  show ?case
  proof (cases "check_exit cfg t b p")
    case None
    let ?q = "snd (update_trailing_stop cfg p (close b))"
    let ?rm1 = "rm\<lparr>open_positions := ?xs[i := ?q]\<rparr>"
    have "drop (Suc i) (open_positions ?rm1) = rest"
      using rest by simp
    from Cons.IH[OF this] obtain rm' where
      r: "process_positions cfg t b (Suc i) rest ?rm1 = (Inr (), rm')"
        "closed_trades rm' = closed_trades ?rm1 @ exit_trades cfg t b rest"
        "current_equity rm' =
           current_equity ?rm1 + sum_list (map net_pnl (exit_trades cfg t b rest))"
        "initial_capital rm' = initial_capital ?rm1"
        "\<forall>s. count_symbol s (open_positions rm') \<le> count_symbol s (open_positions ?rm1)"
        "length (open_positions rm') \<le> length (open_positions ?rm1)"
      by blast
    have "\<And>s. count_symbol s (open_positions ?rm1) = count_symbol s ?xs"
      using count_symbol_update[OF len, of ?q] at by (simp add: update_trailing_stop_symbol)
    moreover have "length (open_positions ?rm1) = length ?xs" by simp
    ultimately show ?thesis using r None
      by (simp add: exit_trades_Cons)
  next
    case (Some a)
    obtain xprice reason where a: "a = (xprice, reason)" by (cases a)
    let ?t = "make_trade cfg p xprice t reason"
    let ?rm1 = "rm\<lparr>current_equity := current_equity rm + net_pnl ?t,
                daily_pnl := (daily_pnl rm)(date_of t \<mapsto>
                  (case daily_pnl rm (date_of t) of None \<Rightarrow> 0 | Some v \<Rightarrow> v) + net_pnl ?t),
                open_positions := remove1 p ?xs,
                closed_trades := closed_trades rm @ [?t]\<rparr>"
    have mem: "p \<in> set ?xs" using at len by (metis nth_mem)
    have cl: "close_position cfg p xprice t reason rm = (Inr ?t, ?rm1)"
      by (rule close_position_open[OF mem])
    have "drop i (open_positions ?rm1) = rest"
      using drop_remove1_visited[OF Cons.prems] by simp
    from Cons.IH[OF this] obtain rm' where
      r: "process_positions cfg t b i rest ?rm1 = (Inr (), rm')"
        "closed_trades rm' = closed_trades ?rm1 @ exit_trades cfg t b rest"
        "current_equity rm' =
           current_equity ?rm1 + sum_list (map net_pnl (exit_trades cfg t b rest))"
        "initial_capital rm' = initial_capital ?rm1"
        "\<forall>s. count_symbol s (open_positions rm') \<le> count_symbol s (open_positions ?rm1)"
        "length (open_positions rm') \<le> length (open_positions ?rm1)"
      by blast
    have "\<And>s. count_symbol s (open_positions ?rm1) \<le> count_symbol s ?xs"
      by (simp add: count_symbol_remove1)
    with r(5) have "\<forall>s. count_symbol s (open_positions rm') \<le> count_symbol s ?xs"
      using le_trans by blast
    moreover have "length (open_positions ?rm1) \<le> length ?xs"
      by (simp add: length_remove1)
    with r(6) have "length (open_positions rm') \<le> length ?xs" by linarith
    ultimately show ?thesis using r(1-4) Some a cl
      by (simp add: exit_trades_Cons)
  qed
qed

lemma open_position_effect:
  assumes "open_position cfg smb sd entry stop target etime size_opt rm = (po, rm')"
  shows "current_equity rm' = current_equity rm"
    and "closed_trades rm' = closed_trades rm"
    and "initial_capital rm' = initial_capital rm"
    and "open_positions rm' = open_positions rm
         \<or> (\<exists>p. symbol p = smb \<and> open_positions rm' = open_positions rm @ [p])"
  using assms
  by (auto simp: open_position_def Let_def split: if_splits prod.splits option.splits)

lemma count_symbol_zero: "(s \<notin> set (map symbol ps)) = (count_symbol s ps = 0)"
  by (induction ps) (auto simp: count_symbol_def)

lemma count_symbol_snoc:
  "count_symbol s (ps @ [p]) = count_symbol s ps + (if symbol p = s then 1 else 0)"
  by (simp add: count_symbol_def)

lemma process_bar_shape:
  assumes pp: "process_positions cfg t b 0 (open_positions (risk_manager e)) (risk_manager e)
                 = (Inr (), rm1)"
    and pb: "process_bar cfg df t b e = (out, e')"
  shows "equity_curve e' = equity_curve e @ [current_equity (risk_manager e)]"
    and "dates e' = dates e @ [t]"
    and "engine_symbol e' = engine_symbol e"
    and "engine_initial_capital e' = engine_initial_capital e"
    and "risk_manager e' = rm1
         \<or> (engine_symbol e \<notin> set (map symbol (open_positions rm1))
            \<and> (\<exists>sd entry stop target po.
                  open_position cfg (engine_symbol e) sd entry stop target t None rm1
                    = (po, risk_manager e')))"
proof -
  let ?e2 = "e\<lparr>equity_curve := equity_curve e @ [current_equity (risk_manager e)],
               dates := dates e @ [t], risk_manager := rm1\<rparr>"
  have unfold: "process_bar cfg df t b e =
      (if engine_symbol e \<notin> set (map symbol (open_positions rm1))
       then (case generate_signal cfg df t (strategy e) of
               (Inl err, st') \<Rightarrow> (Inl err, ?e2\<lparr>strategy := st'\<rparr>)
             | (Inr None, st') \<Rightarrow> (Inr (), ?e2\<lparr>strategy := st'\<rparr>)
             | (Inr (Some sg), st') \<Rightarrow>
                 (Inr (), execute_signal cfg sg t (?e2\<lparr>strategy := st'\<rparr>)))
       else (Inr (), ?e2))"
    using pp by (simp add: process_bar_def Let_def)
  have all: "equity_curve e' = equity_curve e @ [current_equity (risk_manager e)]
    \<and> dates e' = dates e @ [t]
    \<and> engine_symbol e' = engine_symbol e
    \<and> engine_initial_capital e' = engine_initial_capital e
    \<and> (risk_manager e' = rm1
         \<or> (engine_symbol e \<notin> set (map symbol (open_positions rm1))
            \<and> (\<exists>sd entry stop target po.
                  open_position cfg (engine_symbol e) sd entry stop target t None rm1
                    = (po, risk_manager e'))))"
  proof (cases "engine_symbol e \<notin> set (map symbol (open_positions rm1))")
    case False
    with unfold pb have "e' = ?e2" by simp
    then show ?thesis by simp
  next
    case True
    obtain r st' where gs: "generate_signal cfg df t (strategy e) = (r, st')"
      by (cases "generate_signal cfg df t (strategy e)")
    show ?thesis
    proof (cases r)
      case (Inl err)
      with unfold pb True gs have "e' = ?e2\<lparr>strategy := st'\<rparr>" by simp
      then show ?thesis by simp
    next
      case (Inr so)
      show ?thesis
      proof (cases so)
        case None
        with unfold pb True gs Inr have "e' = ?e2\<lparr>strategy := st'\<rparr>" by simp
        then show ?thesis by simp
      next
        case (Some sg)
        with unfold pb True gs Inr
        have e': "e' = execute_signal cfg sg t (?e2\<lparr>strategy := st'\<rparr>)" by simp
        obtain po rm' where op: "open_position cfg (engine_symbol e)
               (if signal_type sg = LONG then ''LONG'' else ''SHORT'')
               (signal_entry_price sg) (signal_stop_loss sg) (signal_take_profit sg) t None rm1
               = (po, rm')"
          by (cases "open_position cfg (engine_symbol e)
               (if signal_type sg = LONG then ''LONG'' else ''SHORT'')
               (signal_entry_price sg) (signal_stop_loss sg) (signal_take_profit sg) t None rm1")
        with e' have "e' = ?e2\<lparr>strategy := st', risk_manager := rm'\<rparr>"
          by (simp add: execute_signal_def)
        with op True show ?thesis by auto
      qed
    qed
  qed
  from all show "equity_curve e' = equity_curve e @ [current_equity (risk_manager e)]"
    and "dates e' = dates e @ [t]"
    and "engine_symbol e' = engine_symbol e"
    and "engine_initial_capital e' = engine_initial_capital e"
    and "risk_manager e' = rm1
         \<or> (engine_symbol e \<notin> set (map symbol (open_positions rm1))
            \<and> (\<exists>sd entry stop target po.
                  open_position cfg (engine_symbol e) sd entry stop target t None rm1
                    = (po, risk_manager e')))"
    by blast+
qed

lemma process_bar_effect:
  assumes pb: "process_bar cfg df t b e = (out, e')"
  shows "equity_curve e' = equity_curve e @ [current_equity (risk_manager e)]"
    and "dates e' = dates e @ [t]"
    and "engine_symbol e' = engine_symbol e"
    and "engine_initial_capital e' = engine_initial_capital e"
    and "closed_trades (risk_manager e') =
           closed_trades (risk_manager e)
           @ exit_trades cfg t b (open_positions (risk_manager e))"
    and "current_equity (risk_manager e') =
           current_equity (risk_manager e)
           + sum_list (map net_pnl (exit_trades cfg t b (open_positions (risk_manager e))))"
    and "initial_capital (risk_manager e') = initial_capital (risk_manager e)"
    and "count_symbol (engine_symbol e) (open_positions (risk_manager e)) \<le> 1
         \<Longrightarrow> count_symbol (engine_symbol e) (open_positions (risk_manager e')) \<le> 1"
    and "s \<noteq> engine_symbol e
         \<Longrightarrow> count_symbol s (open_positions (risk_manager e'))
               \<le> count_symbol s (open_positions (risk_manager e))"
proof -
  let ?rm = "risk_manager e"
  have "drop 0 (open_positions ?rm) = open_positions ?rm" by simp
  from process_positions_effect[OF this, of cfg t b] obtain rm1 where
    pp: "process_positions cfg t b 0 (open_positions ?rm) ?rm = (Inr (), rm1)"
    and tr: "closed_trades rm1 = closed_trades ?rm @ exit_trades cfg t b (open_positions ?rm)"
    and eq: "current_equity rm1 =
         current_equity ?rm + sum_list (map net_pnl (exit_trades cfg t b (open_positions ?rm)))"
    and cap: "initial_capital rm1 = initial_capital ?rm"
    and cnt: "\<And>s. count_symbol s (open_positions rm1) \<le> count_symbol s (open_positions ?rm)"
    and len: "length (open_positions rm1) \<le> length (open_positions ?rm)"
    by blast
  note sh = process_bar_shape[OF pp pb]
  show "equity_curve e' = equity_curve e @ [current_equity ?rm]"
    and "dates e' = dates e @ [t]"
    and "engine_symbol e' = engine_symbol e"
    and "engine_initial_capital e' = engine_initial_capital e"
    by (rule sh)+
  from sh(5) consider (kept) "risk_manager e' = rm1"
    | (opened) sd entry stop target po where
        "engine_symbol e \<notin> set (map symbol (open_positions rm1))"
        "open_position cfg (engine_symbol e) sd entry stop target t None rm1
           = (po, risk_manager e')"
    by blast
  then have all: "closed_trades (risk_manager e') = closed_trades rm1
      \<and> current_equity (risk_manager e') = current_equity rm1
      \<and> initial_capital (risk_manager e') = initial_capital rm1
      \<and> (open_positions (risk_manager e') = open_positions rm1
          \<or> (count_symbol (engine_symbol e) (open_positions rm1) = 0
              \<and> (\<exists>p. symbol p = engine_symbol e
                      \<and> open_positions (risk_manager e') = open_positions rm1 @ [p])))"
  proof cases
    case kept
    then show ?thesis by simp
  next
    case opened
    from opened(1) have "count_symbol (engine_symbol e) (open_positions rm1) = 0"
      by (simp only: count_symbol_zero)
    with open_position_effect[OF opened(2)] show ?thesis
      by auto
  qed
  from all tr show "closed_trades (risk_manager e') =
           closed_trades ?rm @ exit_trades cfg t b (open_positions ?rm)" by simp
  from all eq show "current_equity (risk_manager e') =
           current_equity ?rm
           + sum_list (map net_pnl (exit_trades cfg t b (open_positions ?rm)))" by simp
  from all cap show "initial_capital (risk_manager e') = initial_capital ?rm" by simp
  show "count_symbol (engine_symbol e) (open_positions (risk_manager e')) \<le> 1"
    if "count_symbol (engine_symbol e) (open_positions ?rm) \<le> 1"
    using all that cnt[of "engine_symbol e"] by (auto simp: count_symbol_snoc)
  show "count_symbol s (open_positions (risk_manager e'))
               \<le> count_symbol s (open_positions ?rm)"
    if "s \<noteq> engine_symbol e"
    using all that cnt[of s] by (auto simp: count_symbol_snoc)
qed

lemma count_symbol_present:
  assumes "p \<in> set ps"
  shows "count_symbol (symbol p) ps \<noteq> 0"
proof -
  from assms have "symbol p \<in> set (map symbol ps)" by simp
  then show ?thesis using count_symbol_zero[of "symbol p" ps] by simp
qed

lemma all_symbol_count:
  "(\<forall>p \<in> set ps. symbol p = smb) = (\<forall>s. s \<noteq> smb \<longrightarrow> count_symbol s ps = 0)"
proof
  assume "\<forall>p \<in> set ps. symbol p = smb"
  then have "\<And>s. s \<noteq> smb \<Longrightarrow> filter (\<lambda>p. symbol p = s) ps = []"
    by (simp add: filter_empty_conv)
  then show "\<forall>s. s \<noteq> smb \<longrightarrow> count_symbol s ps = 0"
    by (simp add: count_symbol_def)
next
  assume a: "\<forall>s. s \<noteq> smb \<longrightarrow> count_symbol s ps = 0"
  show "\<forall>p \<in> set ps. symbol p = smb"
  proof
    fix p assume "p \<in> set ps"
    then have "count_symbol (symbol p) ps \<noteq> 0" by (rule count_symbol_present)
    moreover from a have "symbol p \<noteq> smb \<longrightarrow> count_symbol (symbol p) ps = 0" ..
    ultimately show "symbol p = smb" by (cases "symbol p = smb") simp_all
  qed
qed

lemma count_symbol_length:
  assumes "\<forall>p \<in> set ps. symbol p = smb"
  shows "length ps = count_symbol smb ps"
proof -
  from assms have "filter (\<lambda>p. symbol p = smb) ps = ps"
    by (simp only: filter_id_conv)
  then show ?thesis by (simp only: count_symbol_def)
qed

lemma engine_inv_init: "engine_inv (BacktestEngine_init cfg smb capital)"
  by (simp add: engine_inv_def equity_conserved_def BacktestEngine_init_def
      RiskManager_init_def Let_def)

lemma engine_inv_process_bar:
  assumes inv: "engine_inv e" and pb: "process_bar cfg df t b e = (out, e')"
  shows "engine_inv e'"
proof -
  note eff = process_bar_effect[OF pb]
  let ?ps = "open_positions (risk_manager e)"
  let ?ps' = "open_positions (risk_manager e')"
  from inv have syms: "\<forall>p \<in> set ?ps. symbol p = engine_symbol e"
    by (simp add: engine_inv_def)
  then have others: "\<forall>s. s \<noteq> engine_symbol e \<longrightarrow> count_symbol s ?ps = 0"
    by (simp only: all_symbol_count)
  have "\<forall>s. s \<noteq> engine_symbol e \<longrightarrow> count_symbol s ?ps' = 0"
  proof (intro allI impI)
    fix s assume s: "s \<noteq> engine_symbol e"
    from eff(9)[OF s] others s show "count_symbol s ?ps' = 0" by simp
  qed
  then have syms': "\<forall>p \<in> set ?ps'. symbol p = engine_symbol e"
    by (simp only: all_symbol_count)
  from inv count_symbol_length[OF syms]
  have "count_symbol (engine_symbol e) ?ps \<le> 1"
    by (simp add: engine_inv_def)
  from eff(8)[OF this] count_symbol_length[OF syms']
  have len: "length ?ps' \<le> 1" by simp
  from inv have "equity_conserved (risk_manager e')"
    by (simp add: engine_inv_def equity_conserved_def eff(5,6,7))
  with inv len syms' show ?thesis
    by (simp add: engine_inv_def eff(3,4,7))
qed

lemma run_bars_append:
  "run_bars cfg df (rows @ rows') e =
     (case run_bars cfg df rows e of
        (Inl err, e') \<Rightarrow> (Inl err, e')
      | (Inr u, e') \<Rightarrow> run_bars cfg df rows' e')"
  by (induction rows arbitrary: e) (auto split: prod.splits sum.splits)

lemma engine_inv_run_bars:
  assumes "engine_inv e"
  shows "engine_inv (snd (run_bars cfg df rows e))"
  using assms
proof (induction rows arbitrary: e)
  case Nil
  then show ?case by simp
next
  case (Cons row rows)
  obtain t b where row: "row = (t, b)" by (cases row)
  obtain out e' where pb: "process_bar cfg df t b e = (out, e')"
    by (cases "process_bar cfg df t b e")
  from engine_inv_process_bar[OF Cons.prems pb] have inv': "engine_inv e'" .
  show ?case
  proof (cases out)
    case (Inl err)
    with pb row inv' show ?thesis by simp
  next
    case (Inr u)
    with pb row Cons.IH[OF inv'] show ?thesis by simp
  qed
qed

lemma exit_trades_set:
  "(tr \<in> set (exit_trades cfg t b ps)) =
     (\<exists>q \<in> set ps. \<exists>xprice reason. check_exit cfg t b q = Some (xprice, reason)
         \<and> tr = make_trade cfg q xprice t reason)"
proof (induction ps)
  case Nil
  show ?case by (simp add: exit_trades_Nil)
next
  case (Cons p ps)
  show ?case
  proof (cases "check_exit cfg t b p")
    case None
    with Cons show ?thesis by (simp add: exit_trades_Cons)
  next
    case (Some a)
    obtain xp r where "a = (xp, r)" by (cases a)
    with Some Cons show ?thesis by (auto simp: exit_trades_Cons)
  qed
qed

lemma exit_trades_length: "length (exit_trades cfg t b ps) \<le> length ps"
proof (induction ps)
  case Nil
  show ?case by (simp add: exit_trades_Nil)
next
  case (Cons p ps)
  then show ?case
    by (cases "check_exit cfg t b p") (auto simp: exit_trades_Cons)
qed

lemma check_exit_stop_first:
  assumes "low b \<le> stop_loss p" "stop_loss p \<le> high b"
  shows "check_exit cfg t b p = Some (stop_loss p, ''SL'')"
  using assms by (simp add: check_exit_def)

lemma close_remaining_effect:
  assumes "open_positions rm = ps"
  shows "\<exists>rm'. close_remaining cfg price t ps rm = (Inr (), rm')
           \<and> open_positions rm' = []
           \<and> closed_trades rm' =
               closed_trades rm @ map (\<lambda>p. make_trade cfg p price t ''END'') ps
           \<and> current_equity rm' = current_equity rm
               + sum_list (map net_pnl (map (\<lambda>p. make_trade cfg p price t ''END'') ps))
           \<and> initial_capital rm' = initial_capital rm"
  using assms
proof (induction ps arbitrary: rm)
  case Nil
  then show ?case by simp
next
  case (Cons p rest)
  let ?t = "make_trade cfg p price t ''END''"
  let ?rm1 = "rm\<lparr>current_equity := current_equity rm + net_pnl ?t,
                daily_pnl := (daily_pnl rm)(date_of t \<mapsto>
                  (case daily_pnl rm (date_of t) of None \<Rightarrow> 0 | Some v \<Rightarrow> v) + net_pnl ?t),
                open_positions := remove1 p (open_positions rm),
                closed_trades := closed_trades rm @ [?t]\<rparr>"
  have mem: "p \<in> set (open_positions rm)" using Cons.prems by simp
  have cl: "close_position cfg p price t ''END'' rm = (Inr ?t, ?rm1)"
    by (rule close_position_open[OF mem])
  have "open_positions ?rm1 = rest" using Cons.prems by simp
  from Cons.IH[OF this] obtain rm' where
    r: "close_remaining cfg price t rest ?rm1 = (Inr (), rm')"
      "open_positions rm' = []"
      "closed_trades rm' =
         closed_trades ?rm1 @ map (\<lambda>p. make_trade cfg p price t ''END'') rest"
      "current_equity rm' = current_equity ?rm1
         + sum_list (map net_pnl (map (\<lambda>p. make_trade cfg p price t ''END'') rest))"
      "initial_capital rm' = initial_capital ?rm1"
    by blast
  with cl show ?case by simp
qed

lemma run_bars_snoc:
  "snd (run_bars cfg df (rows @ [(t, b)]) e) =
     (case run_bars cfg df rows e of
        (Inl err, e') \<Rightarrow> e'
      | (Inr u, e') \<Rightarrow> snd (process_bar cfg df t b e'))"
  by (simp add: run_bars_append split: prod.splits sum.splits)

lemma process_bar_trades_step:
  assumes "engine_inv e"
  shows "\<exists>new. closed_trades (risk_manager (snd (process_bar cfg df t b e)))
                 = closed_trades (risk_manager e) @ new \<and> length new \<le> 1"
proof -
  obtain out e' where pb: "process_bar cfg df t b e = (out, e')"
    by (cases "process_bar cfg df t b e")
  have "length (exit_trades cfg t b (open_positions (risk_manager e))) \<le> 1"
    using exit_trades_length[of cfg t b "open_positions (risk_manager e)"] assms
    by (simp add: engine_inv_def)
  with process_bar_effect(5)[OF pb] pb show ?thesis by simp
qed

lemma run_bars_snoc_trades:
  assumes "engine_inv e"
  shows "\<exists>new. closed_trades (risk_manager (snd (run_bars cfg df (rows @ [row]) e)))
                 = closed_trades (risk_manager (snd (run_bars cfg df rows e))) @ new
               \<and> length new \<le> 1"
proof -
  obtain t b where row: "row = (t, b)" by (cases row)
  obtain out e' where rb: "run_bars cfg df rows e = (out, e')"
    by (cases "run_bars cfg df rows e")
  have inv': "engine_inv e'"
    using engine_inv_run_bars[OF assms, of cfg df rows] rb by simp
  show ?thesis
  proof (cases out)
    case (Inl err)
    with rb row show ?thesis by (simp add: run_bars_snoc)
  next
    case (Inr u)
    with rb row process_bar_trades_step[OF inv', of cfg df t b] show ?thesis
      by (simp add: run_bars_snoc)
  qed
qed

lemma run_bars_trade_prefixes:
  assumes inv: "engine_inv e"
    and lo: "length (closed_trades (risk_manager e)) \<le> N"
    and hi: "N \<le> length (closed_trades (risk_manager (snd (run_bars cfg df rows e))))"
  shows "\<exists>k \<le> length rows.
           closed_trades (risk_manager (snd (run_bars cfg df (take k rows) e)))
             = take N (closed_trades (risk_manager (snd (run_bars cfg df rows e))))"
  using hi
proof (induction rows rule: rev_induct)
  case Nil
  with lo show ?case by simp
next
  case (snoc row rows)
  let ?E = "snd (run_bars cfg df rows e)"
  let ?E' = "snd (run_bars cfg df (rows @ [row]) e)"
  from run_bars_snoc_trades[OF inv, of cfg df rows row] obtain new where
    new: "closed_trades (risk_manager ?E') = closed_trades (risk_manager ?E) @ new"
      "length new \<le> 1"
    by blast
  show ?case
  proof (cases "N \<le> length (closed_trades (risk_manager ?E))")
    case True
    from snoc.IH[OF True] obtain k where
      k: "k \<le> length rows"
        "closed_trades (risk_manager (snd (run_bars cfg df (take k rows) e)))
           = take N (closed_trades (risk_manager ?E))"
      by blast
    have "take N (closed_trades (risk_manager ?E')) = take N (closed_trades (risk_manager ?E))"
      using new(1) True by simp
    moreover have "take k (rows @ [row]) = take k rows" using k(1) by simp
    ultimately show ?thesis using k by (intro exI[of _ k]) simp
  next
    case False
    with snoc.prems new have "N = length (closed_trades (risk_manager ?E'))" by simp
    then show ?thesis by (intro exI[of _ "length (rows @ [row])"]) simp
  qed
qed


lemma run_final:
  assumes inv: "engine_inv e"
  shows "engine_inv (snd (run cfg df0 s u e))"
    and "\<exists>new. closed_trades (risk_manager (snd (run cfg df0 s u e)))
                 = closed_trades (risk_manager
                     (snd (run_bars cfg (filter_dates df0 s u) (filter_dates df0 s u) e))) @ new
               \<and> length new \<le> 1"
proof -
  let ?df = "filter_dates df0 s u"
  obtain out E where rb: "run_bars cfg ?df ?df e = (out, E)"
    by (cases "run_bars cfg ?df ?df e")
  have invE: "engine_inv E"
    using engine_inv_run_bars[OF inv, of cfg ?df ?df] rb by simp
  have both: "engine_inv (snd (run cfg df0 s u e))
    \<and> (\<exists>new. closed_trades (risk_manager (snd (run cfg df0 s u e)))
                 = closed_trades (risk_manager E) @ new \<and> length new \<le> 1)"
  proof (cases "?df = []")
    case True
    then have "snd (run cfg df0 s u e) = e" by (simp add: run_def)
    moreover from True rb have "E = e" by simp
    ultimately show ?thesis using inv by simp
  next
    case nonempty: False
    show ?thesis
    proof (cases out)
      case (Inl err)
      with rb nonempty have "snd (run cfg df0 s u e) = E" by (simp add: run_def)
      with invE show ?thesis by simp
    next
      case (Inr v)
      let ?ps = "open_positions (risk_manager E)"
      let ?price = "close (snd (last ?df))"
      let ?t = "fst (last ?df)"
      from close_remaining_effect[of "risk_manager E" ?ps cfg ?price ?t] obtain rm' where
        cr: "close_remaining cfg ?price ?t ?ps (risk_manager E) = (Inr (), rm')"
          "open_positions rm' = []"
          "closed_trades rm' = closed_trades (risk_manager E)
             @ map (\<lambda>p. make_trade cfg p ?price ?t ''END'') ?ps"
          "current_equity rm' = current_equity (risk_manager E)
             + sum_list (map net_pnl (map (\<lambda>p. make_trade cfg p ?price ?t ''END'') ?ps))"
          "initial_capital rm' = initial_capital (risk_manager E)"
        by blast
      have F: "snd (run cfg df0 s u e) = E\<lparr>risk_manager := rm'\<rparr>"
        using rb nonempty Inr cr(1)
        by (simp add: run_def Let_def split: sum.splits)
      have "engine_inv (E\<lparr>risk_manager := rm'\<rparr>)"
        using invE cr(2-5) by (simp add: engine_inv_def equity_conserved_def)
      moreover have "length (map (\<lambda>p. make_trade cfg p ?price ?t ''END'') ?ps) \<le> 1"
        using invE by (simp add: engine_inv_def)
      ultimately show ?thesis using F cr(3) by simp
    qed
  qed
  from both show "engine_inv (snd (run cfg df0 s u e))" ..
  from both rb show "\<exists>new. closed_trades (risk_manager (snd (run cfg df0 s u e)))
                 = closed_trades (risk_manager (snd (run_bars cfg ?df ?df e))) @ new
               \<and> length new \<le> 1"
    by simp
qed

lemma init_fields:
  "closed_trades (risk_manager (BacktestEngine_init cfg smb capital)) = []"
  "open_positions (risk_manager (BacktestEngine_init cfg smb capital)) = []"
  "engine_symbol (BacktestEngine_init cfg smb capital) = smb"
  "equity_curve (BacktestEngine_init cfg smb capital) = []"
  "dates (BacktestEngine_init cfg smb capital) = []"
  "current_equity (risk_manager (BacktestEngine_init cfg smb capital))
     = engine_initial_capital (BacktestEngine_init cfg smb capital)"
  by (simp_all add: BacktestEngine_init_def RiskManager_init_def Let_def)

lemma engine_inv_equity:
  assumes "engine_inv e"
  shows "current_equity (risk_manager e)
           = engine_initial_capital e + sum_list (map net_pnl (closed_trades (risk_manager e)))"
  using assms by (simp add: engine_inv_def equity_conserved_def)

lemma run_bars_capital:
  "engine_initial_capital (snd (run_bars cfg df rows e)) = engine_initial_capital e"
proof (induction rows arbitrary: e)
  case Nil
  show ?case by simp
next
  case (Cons row rows)
  obtain t b where row: "row = (t, b)" by (cases row)
  obtain out e' where pb: "process_bar cfg df t b e = (out, e')"
    by (cases "process_bar cfg df t b e")
  from process_bar_effect(4)[OF pb] Cons.IH[of e'] pb row show ?case
    by (cases out) simp_all
qed

subsection \<open>Equity conservation\<close>

lemma equity_conservation_parts:
  fixes cfg :: config and smb :: string and capital :: "real option"
  defines "e0 \<equiv> BacktestEngine_init cfg smb capital"
  defines "cap \<equiv> engine_initial_capital e0"
  shows "current_equity (risk_manager (snd (run_bars cfg df rows e0)))
           = cap + sum_list (map net_pnl
                     (closed_trades (risk_manager (snd (run_bars cfg df rows e0)))))"
    and "current_equity (risk_manager (snd (run cfg df0 s u e0)))
           = cap + sum_list (map net_pnl
                     (closed_trades (risk_manager (snd (run cfg df0 s u e0)))))"
    and "\<forall>N \<le> length (closed_trades (risk_manager (snd (run cfg df0 s u e0)))).
           \<exists>e. (e = snd (run cfg df0 s u e0)
                \<or> (\<exists>k. e = snd (run_bars cfg (filter_dates df0 s u)
                                  (take k (filter_dates df0 s u)) e0)))
              \<and> closed_trades (risk_manager e)
                  = take N (closed_trades (risk_manager (snd (run cfg df0 s u e0))))
              \<and> current_equity (risk_manager e)
                  = cap + sum_list (map net_pnl
                            (take N (closed_trades (risk_manager (snd (run cfg df0 s u e0))))))"
    and "open_position cfg sy sd entry stop target etime size_opt rm = (po, rm')
         \<longrightarrow> current_equity rm' = current_equity rm \<and> closed_trades rm' = closed_trades rm"
    and "position \<in> set (open_positions rm)
         \<longrightarrow> (\<exists>tr rm'. close_position cfg position xprice xtime reason rm = (Inr tr, rm')
                 \<and> current_equity rm' = current_equity rm + net_pnl tr
                 \<and> closed_trades rm' = closed_trades rm @ [tr])"
proof -
  have inv0: "engine_inv e0" unfolding e0_def by (rule engine_inv_init)
  have capE: "\<And>rows df. engine_initial_capital (snd (run_bars cfg df rows e0)) = cap"
    unfolding cap_def by (rule run_bars_capital)
  show a: "current_equity (risk_manager (snd (run_bars cfg df rows e0)))
           = cap + sum_list (map net_pnl
                     (closed_trades (risk_manager (snd (run_bars cfg df rows e0)))))"
    for df rows
    using engine_inv_equity[OF engine_inv_run_bars[OF inv0, of cfg df rows]] capE by simp
  let ?F = "snd (run cfg df0 s u e0)"
  let ?df = "filter_dates df0 s u"
  let ?E = "snd (run_bars cfg ?df ?df e0)"
  have invF: "engine_inv ?F" by (rule run_final(1)[OF inv0])
  from invF inv0 have capF: "initial_capital (risk_manager ?F) = engine_initial_capital ?F"
    by (simp add: engine_inv_def)
  have capF': "engine_initial_capital ?F = cap"
  proof -
    obtain out E where rb: "run_bars cfg ?df ?df e0 = (out, E)"
      by (cases "run_bars cfg ?df ?df e0")
    then have "engine_initial_capital E = cap" using capE[of ?df ?df] by simp
    with rb show ?thesis
      by (auto simp: run_def Let_def cap_def split: prod.splits sum.splits)
  qed
  show b: "current_equity (risk_manager ?F)
           = cap + sum_list (map net_pnl (closed_trades (risk_manager ?F)))"
    using engine_inv_equity[OF invF] capF' by simp
  show "\<forall>N \<le> length (closed_trades (risk_manager ?F)).
           \<exists>e. (e = ?F \<or> (\<exists>k. e = snd (run_bars cfg ?df (take k ?df) e0)))
              \<and> closed_trades (risk_manager e) = take N (closed_trades (risk_manager ?F))
              \<and> current_equity (risk_manager e)
                  = cap + sum_list (map net_pnl (take N (closed_trades (risk_manager ?F))))"
  proof (intro allI impI)
    fix N assume N: "N \<le> length (closed_trades (risk_manager ?F))"
    from run_final(2)[OF inv0, of cfg df0 s u] obtain new where
      new: "closed_trades (risk_manager ?F) = closed_trades (risk_manager ?E) @ new"
        "length new \<le> 1"
      by blast
    show "\<exists>e. (e = ?F \<or> (\<exists>k. e = snd (run_bars cfg ?df (take k ?df) e0)))
              \<and> closed_trades (risk_manager e) = take N (closed_trades (risk_manager ?F))
              \<and> current_equity (risk_manager e)
                  = cap + sum_list (map net_pnl (take N (closed_trades (risk_manager ?F))))"
    proof (cases "N = length (closed_trades (risk_manager ?F))")
      case True
      with b show ?thesis by (intro exI[of _ ?F]) simp
    next
      case False
      with N new have hi: "N \<le> length (closed_trades (risk_manager ?E))" by simp
      have lo: "length (closed_trades (risk_manager e0)) \<le> N"
        by (simp add: e0_def init_fields)
      from run_bars_trade_prefixes[OF inv0 lo hi] obtain k where
        k: "closed_trades (risk_manager (snd (run_bars cfg ?df (take k ?df) e0)))
              = take N (closed_trades (risk_manager ?E))"
        by blast
      have "take N (closed_trades (risk_manager ?E)) = take N (closed_trades (risk_manager ?F))"
        using new(1) hi by simp
      with k a[of ?df "take k ?df"] show ?thesis
        by (intro exI[of _ "snd (run_bars cfg ?df (take k ?df) e0)"]) auto
    qed
  qed
  show "open_position cfg sy sd entry stop target etime size_opt rm = (po, rm')
         \<longrightarrow> current_equity rm' = current_equity rm \<and> closed_trades rm' = closed_trades rm"
  proof
    assume op: "open_position cfg sy sd entry stop target etime size_opt rm = (po, rm')"
    from open_position_effect(1)[OF op] open_position_effect(2)[OF op]
    show "current_equity rm' = current_equity rm \<and> closed_trades rm' = closed_trades rm"
      by simp
  qed
  show "position \<in> set (open_positions rm)
         \<longrightarrow> (\<exists>tr rm'. close_position cfg position xprice xtime reason rm = (Inr tr, rm')
                 \<and> current_equity rm' = current_equity rm + net_pnl tr
                 \<and> closed_trades rm' = closed_trades rm @ [tr])"
    by (simp add: close_position_open)
qed

text \<open>
  C1. From a fresh engine, after the bar loop has gone through any rows, and after a
  whole \<open>run\<close>, the manager's equity is the initial capital plus the sum of the net
  P&L of the closed trades. For every \<open>N\<close> up to the number of trades a run closes
  there is a state of the run (after some number of bars, or at its end) whose trade
  log is the first \<open>N\<close> trades and whose equity is the initial capital plus their
  net P&L. \<open>open_position\<close> leaves the equity and the trade log as they are;
  \<open>close_position\<close> of an open position adds the net P&L of the trade it appends.
  (\<open>update_trailing_stop\<close> and \<open>generate_signal\<close> have no access to the equity.)
\<close>

theorem equity_conservation:
  "current_equity (risk_manager (snd (run_bars cfg df rows (BacktestEngine_init cfg smb capital))))
     = engine_initial_capital (BacktestEngine_init cfg smb capital)
       + sum_list (map net_pnl (closed_trades (risk_manager
           (snd (run_bars cfg df rows (BacktestEngine_init cfg smb capital))))))
   \<and> current_equity (risk_manager (snd (run cfg df0 s u (BacktestEngine_init cfg smb capital))))
     = engine_initial_capital (BacktestEngine_init cfg smb capital)
       + sum_list (map net_pnl (closed_trades (risk_manager
           (snd (run cfg df0 s u (BacktestEngine_init cfg smb capital))))))
   \<and> (\<forall>N \<le> length (closed_trades (risk_manager
                  (snd (run cfg df0 s u (BacktestEngine_init cfg smb capital))))).
        \<exists>e. (e = snd (run cfg df0 s u (BacktestEngine_init cfg smb capital))
             \<or> (\<exists>k. e = snd (run_bars cfg (filter_dates df0 s u)
                               (take k (filter_dates df0 s u))
                               (BacktestEngine_init cfg smb capital))))
           \<and> closed_trades (risk_manager e)
               = take N (closed_trades (risk_manager
                   (snd (run cfg df0 s u (BacktestEngine_init cfg smb capital)))))
           \<and> current_equity (risk_manager e)
               = engine_initial_capital (BacktestEngine_init cfg smb capital)
                 + sum_list (map net_pnl (take N (closed_trades (risk_manager
                     (snd (run cfg df0 s u (BacktestEngine_init cfg smb capital))))))))
   \<and> (open_position cfg sy sd entry stop target etime size_opt rm = (po, rm')
        \<longrightarrow> current_equity rm' = current_equity rm \<and> closed_trades rm' = closed_trades rm)
   \<and> (position \<in> set (open_positions rm)
        \<longrightarrow> (\<exists>tr rm''. close_position cfg position xprice xtime reason rm = (Inr tr, rm'')
                \<and> current_equity rm'' = current_equity rm + net_pnl tr
                \<and> closed_trades rm'' = closed_trades rm @ [tr]))"
  by (intro conjI equity_conservation_parts)

lemma example_run_values:
  "closed_trades (risk_manager (snd (run_bars default_config example_df example_df example_engine)))
     = [make_trade default_config
          \<lparr> symbol = ''EURUSD'', side = ''LONG'', entry_price = 11053 / 10000,
            stop_loss = 11000 / 10000, take_profit = 11159 / 10000, size_lots = 19 / 100,
            entry_time = 8 * 3600000000, position_id = Some (''EURUSD'', 8 * 3600000000) \<rparr>
          (11000 / 10000) (8 * 3600000000 + 300000000) ''SL'']"
  by code_simp

theorem equity_conservation_witness:
  "current_equity (risk_manager
      (snd (run_bars default_config example_df example_df example_engine)))
     = 10000 + (- (1007 / 10) - 133 / 100)
   \<and> length (closed_trades (risk_manager
        (snd (run_bars default_config example_df example_df example_engine)))) = 1"
proof -
  have cap: "engine_initial_capital example_engine = 10000"
    by (simp add: example_engine_def BacktestEngine_init_def default_config_def)
  have net: "sum_list (map net_pnl (closed_trades (risk_manager
        (snd (run_bars default_config example_df example_df example_engine)))))
      = - (1007 / 10) - 133 / 100"
    unfolding example_run_values
    by (simp add: make_trade_def net_pnl_def default_config_def)
  from equity_conservation[where cfg = default_config and df = example_df
      and rows = example_df and smb = "''EURUSD''" and capital = None]
  have "current_equity (risk_manager
      (snd (run_bars default_config example_df example_df example_engine)))
     = engine_initial_capital example_engine
       + sum_list (map net_pnl (closed_trades (risk_manager
           (snd (run_bars default_config example_df example_df example_engine)))))"
    unfolding example_engine_def by (rule conjunct1)
  with cap net show ?thesis by (simp add: example_run_values)
qed

subsection \<open>The equity curve\<close>

lemma run_bars_curve:
  assumes "fst (run_bars cfg df rows e) = Inr ()"
  shows "dates (snd (run_bars cfg df rows e)) = dates e @ map fst rows
       \<and> equity_curve (snd (run_bars cfg df rows e))
           = equity_curve e
             @ map (\<lambda>k. current_equity (risk_manager (snd (run_bars cfg df (take k rows) e))))
                 [0..<length rows]"
  using assms
proof (induction rows rule: rev_induct)
  case Nil
  show ?case by simp
next
  case (snoc row rows)
  obtain t b where row: "row = (t, b)" by (cases row)
  obtain out E where rb: "run_bars cfg df rows e = (out, E)"
    by (cases "run_bars cfg df rows e")
  from snoc.prems rb have out: "out = Inr ()"
    by (cases out) (simp_all add: run_bars_append)
  obtain out' E' where pb: "process_bar cfg df t b E = (out', E')"
    by (cases "process_bar cfg df t b E")
  have last: "snd (run_bars cfg df (rows @ [row]) e) = E'"
    using rb out pb row by (simp add: run_bars_snoc)
  from snoc.IH rb out have ih:
    "dates E = dates e @ map fst rows"
    "equity_curve E = equity_curve e
       @ map (\<lambda>k. current_equity (risk_manager (snd (run_bars cfg df (take k rows) e))))
           [0..<length rows]"
    by simp_all
  have "map (\<lambda>k. current_equity (risk_manager
                (snd (run_bars cfg df (take k (rows @ [row])) e)))) [0..<length rows]
      = map (\<lambda>k. current_equity (risk_manager (snd (run_bars cfg df (take k rows) e))))
          [0..<length rows]"
    by (rule map_cong) simp_all
  moreover have "current_equity (risk_manager
       (snd (run_bars cfg df (take (length rows) (rows @ [row])) e)))
      = current_equity (risk_manager E)"
    using rb by simp
  ultimately have "map (\<lambda>k. current_equity (risk_manager
                (snd (run_bars cfg df (take k (rows @ [row])) e)))) [0..<length (rows @ [row])]
      = map (\<lambda>k. current_equity (risk_manager (snd (run_bars cfg df (take k rows) e))))
          [0..<length rows] @ [current_equity (risk_manager E)]"
    by simp
  with process_bar_effect(1,2)[OF pb] ih last row show ?case by simp
qed

text \<open>
  C8. Processing one bar appends exactly one point to the equity curve and one timestamp
  to \<open>dates\<close>: the equity of the state the bar starts from, whatever exits the bar
  then triggers, and the bar's timestamp. Over a bar loop that completes, \<open>dates\<close>
  grows by the timestamps of the rows in their order and the curve by the equity as it
  stood before each row was processed.
\<close>

theorem equity_point_at_bar_start:
  "equity_curve (snd (process_bar cfg df t b e))
     = equity_curve e @ [current_equity (risk_manager e)]
   \<and> dates (snd (process_bar cfg df t b e)) = dates e @ [t]
   \<and> (fst (run_bars cfg df rows e) = Inr () \<longrightarrow>
        dates (snd (run_bars cfg df rows e)) = dates e @ map fst rows
        \<and> equity_curve (snd (run_bars cfg df rows e))
            = equity_curve e
              @ map (\<lambda>k. current_equity (risk_manager (snd (run_bars cfg df (take k rows) e))))
                  [0..<length rows])"
proof -
  obtain out e' where pb: "process_bar cfg df t b e = (out, e')"
    by (cases "process_bar cfg df t b e")
  from process_bar_effect(1,2)[OF pb] pb run_bars_curve[of cfg df rows e]
  show ?thesis by simp
qed

lemma example_run_ok: "fst (run_bars default_config example_df example_df example_engine) = Inr ()"
  by code_simp

lemma example_run_equities:
  "map (\<lambda>k. current_equity (risk_manager
          (snd (run_bars default_config example_df (take k example_df) example_engine))))
     [0..<length example_df] = [10000, 10000, 10000]"
  by code_simp

lemma example_run_final_equity:
  "current_equity (risk_manager
     (snd (run_bars default_config example_df example_df example_engine))) = 989797 / 100"
  by code_simp

theorem equity_point_at_bar_start_witness:
  "fst (run_bars default_config example_df example_df example_engine) = Inr ()
   \<and> equity_curve (snd (run_bars default_config example_df example_df example_engine))
       = [10000, 10000, 10000]
   \<and> dates (snd (run_bars default_config example_df example_df example_engine))
       = [3600000000, 28800000000, 29100000000]
   \<and> current_equity (risk_manager
        (snd (run_bars default_config example_df example_df example_engine))) = 989797 / 100"
proof -
  from equity_point_at_bar_start[where cfg = default_config and df = example_df
      and rows = example_df and e = example_engine] example_run_ok
  have "dates (snd (run_bars default_config example_df example_df example_engine))
          = dates example_engine @ map fst example_df"
    and "equity_curve (snd (run_bars default_config example_df example_df example_engine))
          = equity_curve example_engine
            @ map (\<lambda>k. current_equity (risk_manager
                (snd (run_bars default_config example_df (take k example_df) example_engine))))
                [0..<length example_df]"
    by simp_all
  moreover have "dates example_engine = []" "equity_curve example_engine = []"
    by (simp_all add: example_engine_def init_fields)
  moreover have "map fst example_df = [3600000000, 28800000000, 29100000000]"
    by (simp add: example_df_def)
  ultimately show ?thesis
    using example_run_ok example_run_equities example_run_final_equity by simp
qed

subsection \<open>One position per symbol\<close>

lemma process_bar_guard:
  assumes pp: "process_positions cfg t b 0 (open_positions (risk_manager e)) (risk_manager e)
                 = (Inr (), rm1)"
    and held: "engine_symbol e \<in> set (map symbol (open_positions rm1))"
  shows "process_bar cfg df t b e =
           (Inr (), e\<lparr>equity_curve := equity_curve e @ [current_equity (risk_manager e)],
                      dates := dates e @ [t], risk_manager := rm1\<rparr>)"
  using pp held by (simp add: process_bar_def Let_def)

text \<open>
  C9. From a fresh engine, after the bar loop has gone through any rows, at most one
  position is open, and at most one for the engine's symbol. From any state with at most
  one open position for the engine's symbol, processing a bar leaves at most one. When a
  position for the symbol is still open after the exits of a bar, the bar ends there:
  the strategy is not asked for a signal (its state is unchanged) and no position is
  opened.
\<close>

theorem single_open_position:
  "length (open_positions (risk_manager
      (snd (run_bars cfg df rows (BacktestEngine_init cfg smb capital))))) \<le> 1
   \<and> count_symbol smb (open_positions (risk_manager
        (snd (run_bars cfg df rows (BacktestEngine_init cfg smb capital))))) \<le> 1
   \<and> (count_symbol (engine_symbol e) (open_positions (risk_manager e)) \<le> 1
        \<longrightarrow> count_symbol (engine_symbol e)
              (open_positions (risk_manager (snd (process_bar cfg df t b e)))) \<le> 1)
   \<and> (process_positions cfg t b 0 (open_positions (risk_manager e)) (risk_manager e)
          = (Inr (), rm1)
        \<and> engine_symbol e \<in> set (map symbol (open_positions rm1))
        \<longrightarrow> process_bar cfg df t b e =
              (Inr (), e\<lparr>equity_curve := equity_curve e @ [current_equity (risk_manager e)],
                         dates := dates e @ [t], risk_manager := rm1\<rparr>))"
proof (intro conjI impI)
  let ?E = "snd (run_bars cfg df rows (BacktestEngine_init cfg smb capital))"
  have inv: "engine_inv ?E"
    by (rule engine_inv_run_bars[OF engine_inv_init])
  then show len: "length (open_positions (risk_manager ?E)) \<le> 1"
    by (simp add: engine_inv_def)
  have "count_symbol smb (open_positions (risk_manager ?E))
          \<le> length (open_positions (risk_manager ?E))"
    by (simp add: count_symbol_def)
  with len show "count_symbol smb (open_positions (risk_manager ?E)) \<le> 1" by simp
next
  assume one: "count_symbol (engine_symbol e) (open_positions (risk_manager e)) \<le> 1"
  obtain out e' where pb: "process_bar cfg df t b e = (out, e')"
    by (cases "process_bar cfg df t b e")
  from process_bar_effect(8)[OF pb one] pb
  show "count_symbol (engine_symbol e)
          (open_positions (risk_manager (snd (process_bar cfg df t b e)))) \<le> 1"
    by simp
next
  assume "process_positions cfg t b 0 (open_positions (risk_manager e)) (risk_manager e)
            = (Inr (), rm1)
          \<and> engine_symbol e \<in> set (map symbol (open_positions rm1))"
  then show "process_bar cfg df t b e =
              (Inr (), e\<lparr>equity_curve := equity_curve e @ [current_equity (risk_manager e)],
                         dates := dates e @ [t], risk_manager := rm1\<rparr>)"
    using process_bar_guard by blast
qed

lemma example_open_after_two:
  "open_positions (risk_manager
     (snd (run_bars default_config example_df (take 2 example_df) example_engine)))
   = [\<lparr> symbol = ''EURUSD'', side = ''LONG'', entry_price = 11053 / 10000,
        stop_loss = 11000 / 10000, take_profit = 11159 / 10000, size_lots = 19 / 100,
        entry_time = 8 * 3600000000, position_id = Some (''EURUSD'', 8 * 3600000000) \<rparr>]"
  by code_simp

theorem single_open_position_witness:
  "length (open_positions (risk_manager
      (snd (run_bars default_config example_df (take 2 example_df) example_engine)))) = 1
   \<and> count_symbol ''EURUSD'' (open_positions (risk_manager
        (snd (run_bars default_config example_df (take 2 example_df) example_engine)))) \<le> 1
   \<and> count_symbol ''EURUSD'' (open_positions (risk_manager
        (snd (run_bars default_config example_df (take 2 example_df) example_engine)))) = 1"
proof -
  from single_open_position[where cfg = default_config and df = example_df
      and rows = "take 2 example_df" and smb = "''EURUSD''" and capital = None]
  have "count_symbol ''EURUSD'' (open_positions (risk_manager
        (snd (run_bars default_config example_df (take 2 example_df) example_engine)))) \<le> 1"
    unfolding example_engine_def by blast
  moreover have "count_symbol ''EURUSD'' (open_positions (risk_manager
        (snd (run_bars default_config example_df (take 2 example_df) example_engine)))) = 1"
    unfolding example_open_after_two by (simp add: count_symbol_def)
  moreover have "length (open_positions (risk_manager
      (snd (run_bars default_config example_df (take 2 example_df) example_engine)))) = 1"
    unfolding example_open_after_two by simp
  ultimately show ?thesis by simp
qed

subsection \<open>Exits at the stop and the target\<close>

lemma check_exit_levels:
  assumes "check_exit cfg t b p = Some (xprice, reason)"
  shows "(reason = ''SL'' \<longrightarrow> xprice = stop_loss p)
       \<and> (reason = ''TP'' \<longrightarrow> xprice = take_profit p)"
  using assms by (auto simp: check_exit_def Let_def split: if_splits)

lemma filled_at_level_make_trade:
  "filled_at_level (make_trade cfg p xprice t reason) =
     ((reason = ''SL'' \<longrightarrow> xprice = stop_loss p) \<and> (reason = ''TP'' \<longrightarrow> xprice = take_profit p))"
  by (simp add: filled_at_level_def make_trade_def Let_def)

lemma exit_trades_filled:
  assumes "tr \<in> set (exit_trades cfg t b ps)"
  shows "filled_at_level tr"
proof -
  from assms obtain q xprice reason where
    q: "check_exit cfg t b q = Some (xprice, reason)" "tr = make_trade cfg q xprice t reason"
    unfolding exit_trades_set by blast
  from check_exit_levels[OF q(1)] q(2) show ?thesis
    by (simp only: filled_at_level_make_trade)
qed

lemma process_bar_filled:
  assumes "\<forall>tr \<in> set (closed_trades (risk_manager e)). filled_at_level tr"
  shows "\<forall>tr \<in> set (closed_trades (risk_manager (snd (process_bar cfg df t b e)))).
           filled_at_level tr"
proof -
  obtain out e' where pb: "process_bar cfg df t b e = (out, e')"
    by (cases "process_bar cfg df t b e")
  from process_bar_effect(5)[OF pb] assms pb show ?thesis
    by (auto simp: exit_trades_filled)
qed

lemma run_bars_filled:
  assumes "\<forall>tr \<in> set (closed_trades (risk_manager e)). filled_at_level tr"
  shows "\<forall>tr \<in> set (closed_trades (risk_manager (snd (run_bars cfg df rows e)))).
           filled_at_level tr"
  using assms
proof (induction rows arbitrary: e)
  case Nil
  then show ?case by simp
next
  case (Cons row rows)
  obtain t b where row: "row = (t, b)" by (cases row)
  obtain out e' where pb: "process_bar cfg df t b e = (out, e')"
    by (cases "process_bar cfg df t b e")
  from process_bar_filled[OF Cons.prems, of cfg df t b] pb
  have f: "\<forall>tr \<in> set (closed_trades (risk_manager e')). filled_at_level tr" by simp
  show ?case
  proof (cases out)
    case (Inl err)
    with pb row f show ?thesis by simp
  next
    case (Inr v)
    with pb row Cons.IH[OF f] show ?thesis by simp
  qed
qed

lemma run_closing_trades:
  "\<exists>ps price t. closed_trades (risk_manager (snd (run cfg df0 s u e)))
      = closed_trades (risk_manager
          (snd (run_bars cfg (filter_dates df0 s u) (filter_dates df0 s u) e)))
        @ map (\<lambda>p. make_trade cfg p price t ''END'') ps"
proof -
  let ?df = "filter_dates df0 s u"
  obtain out E where rb: "run_bars cfg ?df ?df e = (out, E)"
    by (cases "run_bars cfg ?df ?df e")
  have "\<exists>ps price t. closed_trades (risk_manager (snd (run cfg df0 s u e)))
      = closed_trades (risk_manager E) @ map (\<lambda>p. make_trade cfg p price t ''END'') ps"
  proof (cases "?df = []")
    case True
    then have "snd (run cfg df0 s u e) = e" by (simp add: run_def)
    moreover from True rb have "E = e" by simp
    ultimately show ?thesis by (intro exI[of _ "[]"]) simp
  next
    case nonempty: False
    show ?thesis
    proof (cases out)
      case (Inl err)
      with rb nonempty have "snd (run cfg df0 s u e) = E" by (simp add: run_def)
      then show ?thesis by (intro exI[of _ "[]"]) simp
    next
      case (Inr v)
      let ?ps = "open_positions (risk_manager E)"
      let ?price = "close (snd (last ?df))"
      let ?t = "fst (last ?df)"
      from close_remaining_effect[of "risk_manager E" ?ps cfg ?price ?t] obtain rm' where
        cr: "close_remaining cfg ?price ?t ?ps (risk_manager E) = (Inr (), rm')"
          "closed_trades rm' = closed_trades (risk_manager E)
             @ map (\<lambda>p. make_trade cfg p ?price ?t ''END'') ?ps"
        by blast
      have "snd (run cfg df0 s u e) = E\<lparr>risk_manager := rm'\<rparr>"
        using rb nonempty Inr cr(1)
        by (simp add: run_def Let_def split: sum.splits)
      with cr(2) show ?thesis by (intro exI[of _ ?ps] exI[of _ ?price] exI[of _ ?t]) simp
    qed
  qed
  with rb show ?thesis by simp
qed

lemma run_filled:
  assumes "\<forall>tr \<in> set (closed_trades (risk_manager e)). filled_at_level tr"
  shows "\<forall>tr \<in> set (closed_trades (risk_manager (snd (run cfg df0 s u e)))).
           filled_at_level tr"
proof -
  from run_closing_trades[of cfg df0 s u e] obtain ps price t where
    c: "closed_trades (risk_manager (snd (run cfg df0 s u e)))
      = closed_trades (risk_manager
          (snd (run_bars cfg (filter_dates df0 s u) (filter_dates df0 s u) e)))
        @ map (\<lambda>p. make_trade cfg p price t ''END'') ps"
    by blast
  have "\<forall>tr \<in> set (map (\<lambda>p. make_trade cfg p price t ''END'') ps). filled_at_level tr"
    by (simp add: filled_at_level_make_trade)
  with run_bars_filled[OF assms, of cfg "filter_dates df0 s u" "filter_dates df0 s u"] c
  show ?thesis by auto
qed

text \<open>
  C10. Every trade that processing a bar closes by stop-loss has the position's stop as
  its exit price, and every one closed by take-profit has the position's target, whatever
  the bar's low and high are; its P&L in pips and in money is computed from that exit
  price. The trades a bar appends are exactly those exits, so from a fresh engine every
  trade in the log, after any rows of the bar loop and after a whole run, is such a
  trade.
\<close>

theorem exits_fill_at_level:
  "(\<forall>tr \<in> set (exit_trades cfg t b ps). filled_at_level tr)
   \<and> closed_trades (risk_manager (snd (process_bar cfg df t b e)))
       = closed_trades (risk_manager e)
         @ exit_trades cfg t b (open_positions (risk_manager e))
   \<and> (\<forall>tr \<in> set (closed_trades (risk_manager
          (snd (run_bars cfg df rows (BacktestEngine_init cfg smb capital))))).
        filled_at_level tr)
   \<and> (\<forall>tr \<in> set (closed_trades (risk_manager
          (snd (run cfg df0 s u (BacktestEngine_init cfg smb capital))))).
        filled_at_level tr)"
proof (intro conjI)
  show "\<forall>tr \<in> set (exit_trades cfg t b ps). filled_at_level tr"
    using exit_trades_filled by blast
  obtain out e' where pb: "process_bar cfg df t b e = (out, e')"
    by (cases "process_bar cfg df t b e")
  from process_bar_effect(5)[OF pb] pb
  show "closed_trades (risk_manager (snd (process_bar cfg df t b e)))
       = closed_trades (risk_manager e)
         @ exit_trades cfg t b (open_positions (risk_manager e))"
    by simp
  have init: "\<forall>tr \<in> set (closed_trades (risk_manager (BacktestEngine_init cfg smb capital))).
                filled_at_level tr"
    by (simp add: init_fields)
  show "\<forall>tr \<in> set (closed_trades (risk_manager
          (snd (run_bars cfg df rows (BacktestEngine_init cfg smb capital))))).
        filled_at_level tr"
    by (rule run_bars_filled[OF init])
  show "\<forall>tr \<in> set (closed_trades (risk_manager
          (snd (run cfg df0 s u (BacktestEngine_init cfg smb capital))))).
        filled_at_level tr"
    by (rule run_filled[OF init])
qed

theorem exits_fill_at_level_witness:
  "filled_at_level (hd (closed_trades (risk_manager
      (snd (run_bars default_config example_df example_df example_engine)))))
   \<and> exit_reason (hd (closed_trades (risk_manager
        (snd (run_bars default_config example_df example_df example_engine))))) = ''SL''
   \<and> exit_price (hd (closed_trades (risk_manager
        (snd (run_bars default_config example_df example_df example_engine))))) = 11000 / 10000
   \<and> pnl_pips (hd (closed_trades (risk_manager
        (snd (run_bars default_config example_df example_df example_engine))))) = - 53
   \<and> low (snd (example_df ! 2)) = 10990 / 10000"
proof -
  let ?log = "closed_trades (risk_manager
      (snd (run_bars default_config example_df example_df example_engine)))"
  have mem: "hd ?log \<in> set ?log"
    unfolding example_run_values by simp
  from exits_fill_at_level[where cfg = default_config and df = example_df
      and rows = example_df and smb = "''EURUSD''" and capital = None]
  have "\<forall>tr \<in> set ?log. filled_at_level tr"
    unfolding example_engine_def by blast
  with mem have "filled_at_level (hd ?log)" by blast
  moreover have "exit_reason (hd ?log) = ''SL''" "exit_price (hd ?log) = 11000 / 10000"
    "pnl_pips (hd ?log) = - 53"
    unfolding example_run_values by (simp_all add: make_trade_def)
  moreover have "low (snd (example_df ! 2)) = 10990 / 10000"
    by (simp add: example_df_def)
  ultimately show ?thesis by simp
qed

text \<open>
  C2. A position is open and the bar's low and high enclose both its stop and its
  target. Then the exit chosen for it is its stop with reason SL, the trades the bar
  appends to the log include the position's trade at its stop with reason SL, and every
  appended trade with the position's side, stop and target has reason SL and the stop
  as exit price: none is a take-profit. This holds for a LONG position and for any
  other (SHORT) one.
\<close>

theorem stop_loss_priority:
  assumes "p \<in> set (open_positions (risk_manager e))"
    and "low b \<le> stop_loss p" and "stop_loss p \<le> high b"
    and "low b \<le> take_profit p" and "take_profit p \<le> high b"
  shows "check_exit cfg t b p = Some (stop_loss p, ''SL'')
     \<and> (\<exists>new. closed_trades (risk_manager (snd (process_bar cfg df t b e)))
                 = closed_trades (risk_manager e) @ new
          \<and> (\<exists>tr \<in> set new. tr = make_trade cfg p (stop_loss p) t ''SL''
                \<and> exit_price tr = stop_loss p \<and> exit_reason tr = ''SL'')
          \<and> (\<forall>tr \<in> set new.
                trade_side tr = side p \<and> trade_stop_loss tr = stop_loss p
                \<and> trade_take_profit tr = take_profit p
                \<longrightarrow> exit_reason tr = ''SL'' \<and> exit_price tr = stop_loss p))"
proof -
  let ?new = "exit_trades cfg t b (open_positions (risk_manager e))"
  have ce: "check_exit cfg t b p = Some (stop_loss p, ''SL'')"
    by (rule check_exit_stop_first[OF assms(2,3)])
  obtain out e' where pb: "process_bar cfg df t b e = (out, e')"
    by (cases "process_bar cfg df t b e")
  from process_bar_effect(5)[OF pb] pb
  have log: "closed_trades (risk_manager (snd (process_bar cfg df t b e)))
       = closed_trades (risk_manager e) @ ?new"
    by simp
  have "make_trade cfg p (stop_loss p) t ''SL'' \<in> set ?new"
    unfolding exit_trades_set using assms(1) ce by blast
  moreover have "exit_price (make_trade cfg p (stop_loss p) t ''SL'') = stop_loss p"
    "exit_reason (make_trade cfg p (stop_loss p) t ''SL'') = ''SL''"
    by (simp_all add: make_trade_def Let_def)
  ultimately have one: "\<exists>tr \<in> set ?new. tr = make_trade cfg p (stop_loss p) t ''SL''
                \<and> exit_price tr = stop_loss p \<and> exit_reason tr = ''SL''"
    by blast
  have none: "\<forall>tr \<in> set ?new.
                trade_side tr = side p \<and> trade_stop_loss tr = stop_loss p
                \<and> trade_take_profit tr = take_profit p
                \<longrightarrow> exit_reason tr = ''SL'' \<and> exit_price tr = stop_loss p"
  proof (intro ballI impI)
    fix tr assume tr: "tr \<in> set ?new"
      and same: "trade_side tr = side p \<and> trade_stop_loss tr = stop_loss p
                \<and> trade_take_profit tr = take_profit p"
    from tr obtain q xprice reason where
      q: "check_exit cfg t b q = Some (xprice, reason)" "tr = make_trade cfg q xprice t reason"
      unfolding exit_trades_set by blast
    from q(2) same have "stop_loss q = stop_loss p"
      by (simp add: make_trade_def Let_def)
    with assms(2,3) have "check_exit cfg t b q = Some (stop_loss q, ''SL'')"
      by (simp add: check_exit_stop_first)
    with q(1) have "xprice = stop_loss q" "reason = ''SL''" by simp_all
    with q(2) \<open>stop_loss q = stop_loss p\<close>
    show "exit_reason tr = ''SL'' \<and> exit_price tr = stop_loss p"
      by (simp add: make_trade_def Let_def)
  qed
  from ce log one none show ?thesis by blast
qed

lemma scenario_d_open: "open_positions (risk_manager scenario_d_engine) = [example_long]"
  by (simp add: scenario_d_engine_def)

lemma scenario_d_closed: "closed_trades (risk_manager scenario_d_engine) = []"
  by (simp add: scenario_d_engine_def example_engine_def init_fields)

theorem stop_loss_priority_witness:
  "example_long \<in> set (open_positions (risk_manager scenario_d_engine))
   \<and> low scenario_d_bar \<le> stop_loss example_long
   \<and> stop_loss example_long \<le> high scenario_d_bar
   \<and> low scenario_d_bar \<le> take_profit example_long
   \<and> take_profit example_long \<le> high scenario_d_bar
   \<and> check_exit default_config (9 * 3600000000) scenario_d_bar example_long
       = Some (10950 / 10000, ''SL'')
   \<and> make_trade default_config example_long (10950 / 10000) (9 * 3600000000) ''SL''
       \<in> set (closed_trades (risk_manager
            (snd (process_bar default_config [] (9 * 3600000000) scenario_d_bar
                    scenario_d_engine))))"
proof -
  have h: "example_long \<in> set (open_positions (risk_manager scenario_d_engine))"
    "low scenario_d_bar \<le> stop_loss example_long"
    "stop_loss example_long \<le> high scenario_d_bar"
    "low scenario_d_bar \<le> take_profit example_long"
    "take_profit example_long \<le> high scenario_d_bar"
    by (simp_all add: scenario_d_open scenario_d_bar_def example_long_def)
  have sl: "stop_loss example_long = 10950 / 10000"
    by (simp add: example_long_def)
  from stop_loss_priority[OF h, where cfg = default_config and t = "9 * 3600000000"
      and df = "[]"]
  have "check_exit default_config (9 * 3600000000) scenario_d_bar example_long
          = Some (stop_loss example_long, ''SL'')"
    and "make_trade default_config example_long (stop_loss example_long)
           (9 * 3600000000) ''SL''
         \<in> set (closed_trades (risk_manager
              (snd (process_bar default_config [] (9 * 3600000000) scenario_d_bar
                      scenario_d_engine))))"
    by (auto simp: scenario_d_closed)
  with h show ?thesis unfolding sl by simp
qed

subsection \<open>An empty window\<close>

text \<open>
  C7. When no row is left after the start and end date filters, \<open>run\<close> raises
  ValueError and the engine it leaves is the engine it was given: the equity curve, the
  dates, the strategy and the manager's equity, open positions and trade log are
  untouched.
\<close>

theorem empty_window_rejected:
  assumes "filter_dates df0 start_date end_date = []"
  shows "run cfg df0 start_date end_date e
           = (Inl (ValueError ''No data available for backtest period''), e)"
  using assms by (simp add: run_def)

theorem empty_window_rejected_witness:
  "filter_dates example_df (Some 86400000000) None = []
   \<and> fst (run default_config example_df (Some 86400000000) None example_engine)
       = Inl (ValueError ''No data available for backtest period'')
   \<and> equity_curve (snd (run default_config example_df (Some 86400000000) None example_engine))
       = []
   \<and> current_equity (risk_manager
        (snd (run default_config example_df (Some 86400000000) None example_engine))) = 10000
   \<and> open_positions (risk_manager
        (snd (run default_config example_df (Some 86400000000) None example_engine))) = []
   \<and> closed_trades (risk_manager
        (snd (run default_config example_df (Some 86400000000) None example_engine))) = []"
proof -
  have empty: "filter_dates example_df (Some 86400000000) None = []"
    by (simp add: filter_dates_def example_df_def)
  have fresh: "equity_curve example_engine = []"
    "current_equity (risk_manager example_engine) = 10000"
    "open_positions (risk_manager example_engine) = []"
    "closed_trades (risk_manager example_engine) = []"
    by (simp_all add: example_engine_def BacktestEngine_init_def RiskManager_init_def
        default_config_def)
  from empty_window_rejected[OF empty, of default_config example_engine] empty fresh
  show ?thesis by simp
qed

subsection \<open>One signal per day\<close>

lemma generate_signal_same_day:
  assumes "last_signal_date st = Some (date_of t)"
  shows "generate_signal cfg df t st = (Inr None, st)"
  using assms by (simp add: generate_signal_def)

lemma generate_signal_last_date:
  assumes "generate_signal cfg df t st = (r, st')"
  shows "last_signal_date st' =
           (if is_signal r then Some (date_of t) else last_signal_date st)"
  using assms
  by (auto simp: generate_signal_def Let_def is_signal_def
      split: if_splits option.splits list.splits sum.splits prod.splits)

lemma feed_same_day:
  assumes "last_signal_date st = Some d"
    and "i < length calls"
    and "date_of (snd (calls ! i)) = d"
    and "\<forall>j < i. date_of (snd (calls ! j)) \<noteq> d \<longrightarrow> \<not> is_signal (feed cfg calls st ! j)"
  shows "feed cfg calls st ! i = Inr None"
  using assms
proof (induction calls arbitrary: i st)
  case Nil
  then show ?case by simp
next
  case (Cons c calls)
  obtain df t where c: "c = (df, t)" by (cases c)
  obtain r st' where gs: "generate_signal cfg df t st = (r, st')"
    by (cases "generate_signal cfg df t st")
  show ?case
  proof (cases i)
    case 0
    with Cons.prems(3) c have "date_of t = d" by simp
    with Cons.prems(1) have "generate_signal cfg df t st = (Inr None, st)"
      by (simp add: generate_signal_same_day)
    with 0 c show ?thesis by simp
  next
    case (Suc k)
    have keep: "last_signal_date st' = Some d"
    proof (cases "date_of t = d")
      case True
      with Cons.prems(1) have "generate_signal cfg df t st = (Inr None, st)"
        by (simp add: generate_signal_same_day)
      with gs Cons.prems(1) show ?thesis by simp
    next
      case False
      from Cons.prems(4) Suc have
        "date_of (snd ((c # calls) ! 0)) \<noteq> d \<longrightarrow> \<not> is_signal (feed cfg (c # calls) st ! 0)"
        by blast
      with False c gs have "\<not> is_signal r" by simp
      with generate_signal_last_date[OF gs] Cons.prems(1) show ?thesis by simp
    qed
    have k: "k < length calls" using Cons.prems(2) Suc by simp
    have dk: "date_of (snd (calls ! k)) = d" using Cons.prems(3) Suc by simp
    have rest: "\<forall>j < k. date_of (snd (calls ! j)) \<noteq> d \<longrightarrow> \<not> is_signal (feed cfg calls st' ! j)"
    proof (intro allI impI)
      fix j assume j: "j < k" and nd: "date_of (snd (calls ! j)) \<noteq> d"
      from j Suc have "Suc j < i" by simp
      with Cons.prems(4) have
        "date_of (snd ((c # calls) ! Suc j)) \<noteq> d
           \<longrightarrow> \<not> is_signal (feed cfg (c # calls) st ! Suc j)"
        by blast
      with nd c gs show "\<not> is_signal (feed cfg calls st' ! j)" by simp
    qed
    from Cons.IH[OF keep k dk rest] Suc c gs show ?thesis by simp
  qed
qed

lemma time_ordered_same_day:
  assumes "sorted (map (date_of \<circ> snd) calls)"
    and "\<forall>c \<in> set calls. d \<le> date_of (snd c)"
    and "i < length calls"
    and "date_of (snd (calls ! i)) = d"
    and "j < i"
  shows "date_of (snd (calls ! j)) = d"
proof -
  from assms(3,5) have jl: "j < length calls" by simp
  then have "calls ! j \<in> set calls" by simp
  with assms(2) have lo: "d \<le> date_of (snd (calls ! j))" by blast
  from assms(1,3,5) have "map (date_of \<circ> snd) calls ! j \<le> map (date_of \<circ> snd) calls ! i"
    by (simp add: sorted_iff_nth_mono del: map_map)
  with jl assms(3,4) have "date_of (snd (calls ! j)) \<le> d" by simp
  with lo show ?thesis by simp
qed

text \<open>
  C3, as amended. A call of \<open>generate_signal\<close> at \<open>t\<close> has returned a signal. Of the
  calls that follow on the same strategy, with any dataframes and timestamps, a call
  whose timestamp is on the date of \<open>t\<close> returns None provided that no call before it
  on another date has returned a signal; in particular it returns None when the calls
  come in time order (by date, none before the date of \<open>t\<close>), however many of that
  day's bars break out.
\<close>

theorem one_signal_per_day:
  assumes "generate_signal cfg df t st = (Inr (Some sg), st1)"
    and "i < length calls"
    and "date_of (snd (calls ! i)) = date_of t"
  shows "((\<forall>j < i. date_of (snd (calls ! j)) \<noteq> date_of t
              \<longrightarrow> \<not> is_signal (feed cfg calls st1 ! j))
          \<longrightarrow> feed cfg calls st1 ! i = Inr None)
       \<and> (sorted (map (date_of \<circ> snd) calls)
            \<and> (\<forall>c \<in> set calls. date_of t \<le> date_of (snd c))
          \<longrightarrow> feed cfg calls st1 ! i = Inr None)"
proof -
  have "is_signal (Inr (Some sg))" by (simp add: is_signal_def)
  with generate_signal_last_date[OF assms(1)]
  have last: "last_signal_date st1 = Some (date_of t)" by simp
  have a: "feed cfg calls st1 ! i = Inr None"
    if "\<forall>j < i. date_of (snd (calls ! j)) \<noteq> date_of t
              \<longrightarrow> \<not> is_signal (feed cfg calls st1 ! j)"
    by (rule feed_same_day[OF last assms(2,3) that])
  have b: "feed cfg calls st1 ! i = Inr None"
    if "sorted (map (date_of \<circ> snd) calls)
            \<and> (\<forall>c \<in> set calls. date_of t \<le> date_of (snd c))"
  proof (rule a, intro allI impI)
    fix j assume "j < i" and nd: "date_of (snd (calls ! j)) \<noteq> date_of t"
    from that time_ordered_same_day[OF _ _ assms(2,3) \<open>j < i\<close>]
    have "date_of (snd (calls ! j)) = date_of t" by blast
    with nd show "\<not> is_signal (feed cfg calls st1 ! j)" by simp
  qed
  from a b show ?thesis by blast
qed

lemma first_signal:
  "is_signal (fst (generate_signal default_config two_day_df (8 * 3600000000) fresh_strategy))"
  by code_simp

lemma second_breakout_alone:
  "is_signal (fst (generate_signal default_config two_day_df (8 * 3600000000 + 300000000)
                     fresh_strategy))"
  by code_simp

theorem one_signal_per_day_witness:
  "is_signal (fst (generate_signal default_config two_day_df (8 * 3600000000) fresh_strategy))
   \<and> is_signal (fst (generate_signal default_config two_day_df (8 * 3600000000 + 300000000)
                      fresh_strategy))
   \<and> date_of (8 * 3600000000 + 300000000) = date_of (8 * 3600000000)
   \<and> feed default_config
        [(two_day_df, 8 * 3600000000 + 300000000), (two_day_df, 86400000000 + 8 * 3600000000)]
        signalled_strategy ! 0 = Inr None"
proof -
  obtain sg where sg: "generate_signal default_config two_day_df (8 * 3600000000)
      fresh_strategy = (Inr (Some sg), signalled_strategy)"
    using first_signal unfolding signalled_strategy_def is_signal_def
    by (cases "generate_signal default_config two_day_df (8 * 3600000000) fresh_strategy")
      (auto split: sum.splits option.splits)
  let ?calls = "[(two_day_df, 8 * 3600000000 + 300000000),
                 (two_day_df, 86400000000 + 8 * 3600000000)]"
  have d: "date_of (8 * 3600000000 + 300000000) = date_of (8 * 3600000000)"
    by (simp add: date_of_def DAY_def)
  have i: "0 < length ?calls" by simp
  have di: "date_of (snd (?calls ! 0)) = date_of (8 * 3600000000)"
    using d by simp
  from one_signal_per_day[OF sg i di]
  have "feed default_config ?calls signalled_strategy ! 0 = Inr None" by simp
  with first_signal second_breakout_alone d show ?thesis by simp
qed

text \<open>
  The claim as stated fails when a call on another date returns a signal in between:
  after the signal at 08:00 of the first day, a call at 08:00 of the second day returns
  a signal, and the call that follows at 08:05 of the first day returns a signal again.
\<close>

theorem one_signal_per_day_counterexample:
  "is_signal (fst (generate_signal default_config two_day_df (8 * 3600000000) fresh_strategy))
   \<and> date_of (8 * 3600000000 + 300000000) = date_of (8 * 3600000000)
   \<and> is_signal (feed default_config
        [(two_day_df, 86400000000 + 8 * 3600000000), (two_day_df, 8 * 3600000000 + 300000000)]
        signalled_strategy ! 0)
   \<and> is_signal (feed default_config
        [(two_day_df, 86400000000 + 8 * 3600000000), (two_day_df, 8 * 3600000000 + 300000000)]
        signalled_strategy ! 1)"
  by code_simp

subsection \<open>A run without trades\<close>

lemma generate_results_zero_trades:
  assumes "closed_trades (risk_manager e) = []"
  shows "generate_results df e ''total_trades'' = Some (VInt 0)"
    and "generate_results df e ''winners'' = None"
    and "generate_results df e ''win_rate'' = Some (VFloat 0)"
    and "generate_results df e ''profit_factor'' = Some (VFloat 0)"
  using assms
  by (simp_all add: generate_results_def get_statistics_def Let_def map_add_def
      split: prod.splits)

lemma print_results_zero_trades:
  assumes "closed_trades (risk_manager e) = []"
  shows "print_results (generate_results df e) = Inl (KeyError ''winners'')"
  using generate_results_zero_trades(1,2)[OF assms, of df]
  by (simp add: print_results_def printed_keys_def)

text \<open>
  C4, on the code. A run whose bar loop completes and which ends with no closed trade
  does not return its report: \<open>get_statistics\<close> then returns a dictionary without the
  key \<open>winners\<close>, and \<open>_print_results\<close>, which \<open>run\<close> calls before it returns,
  raises KeyError on it.
\<close>

theorem zero_trades_run_raises:
  assumes "filter_dates df0 s u \<noteq> []"
    and "fst (run_bars cfg (filter_dates df0 s u) (filter_dates df0 s u) e) = Inr ()"
    and "closed_trades (risk_manager (snd (run cfg df0 s u e))) = []"
  shows "fst (run cfg df0 s u e) = Inl (KeyError ''winners'')"
proof -
  let ?df = "filter_dates df0 s u"
  obtain out E where rb: "run_bars cfg ?df ?df e = (out, E)"
    by (cases "run_bars cfg ?df ?df e")
  with assms(2) have out: "out = Inr ()" by simp
  let ?ps = "open_positions (risk_manager E)"
  let ?price = "close (snd (last ?df))"
  let ?t = "fst (last ?df)"
  from close_remaining_effect[of "risk_manager E" ?ps cfg ?price ?t] obtain rm' where
    cr: "close_remaining cfg ?price ?t ?ps (risk_manager E) = (Inr (), rm')"
    by blast
  have F: "snd (run cfg df0 s u e) = E\<lparr>risk_manager := rm'\<rparr>"
    using rb assms(1) out cr
    by (simp add: run_def Let_def split: sum.splits)
  with assms(3) have "closed_trades (risk_manager (E\<lparr>risk_manager := rm'\<rparr>)) = []"
    by simp
  then have "print_results (generate_results ?df (E\<lparr>risk_manager := rm'\<rparr>))
               = Inl (KeyError ''winners'')"
    by (rule print_results_zero_trades)
  with rb assms(1) out cr show ?thesis
    by (simp add: run_def Let_def)
qed

lemma quiet_run_bars:
  "fst (run_bars default_config quiet_df quiet_df example_engine) = Inr ()"
  "closed_trades (risk_manager (snd (run_bars default_config quiet_df quiet_df example_engine)))
     = []"
  "open_positions (risk_manager (snd (run_bars default_config quiet_df quiet_df example_engine)))
     = []"
  by code_simp+

lemma quiet_filter: "filter_dates quiet_df None None = quiet_df"
  by (simp add: filter_dates_def)

lemma quiet_nonempty: "quiet_df \<noteq> []"
  by (simp add: quiet_df_def)

lemma quiet_run_no_trades:
  "closed_trades (risk_manager (snd (run default_config quiet_df None None example_engine))) = []"
proof -
  obtain out E where E: "run_bars default_config quiet_df quiet_df example_engine = (out, E)"
    by (cases "run_bars default_config quiet_df quiet_df example_engine")
  with quiet_run_bars have out: "out = Inr ()"
    and "open_positions (risk_manager E) = []" and "closed_trades (risk_manager E) = []"
    by simp_all
  then have "snd (run default_config quiet_df None None example_engine)
               = E\<lparr>risk_manager := risk_manager E\<rparr>"
    using E quiet_nonempty
    by (simp add: run_def quiet_filter Let_def split: sum.splits)
  with \<open>closed_trades (risk_manager E) = []\<close> show ?thesis by simp
qed

theorem zero_trades_run_raises_witness:
  "filter_dates quiet_df None None \<noteq> []
   \<and> fst (run_bars default_config (filter_dates quiet_df None None)
            (filter_dates quiet_df None None) example_engine) = Inr ()
   \<and> closed_trades (risk_manager
        (snd (run default_config quiet_df None None example_engine))) = []
   \<and> fst (run default_config quiet_df None None example_engine) = Inl (KeyError ''winners'')"
proof -
  have h: "filter_dates quiet_df None None \<noteq> []"
    "fst (run_bars default_config (filter_dates quiet_df None None)
            (filter_dates quiet_df None None) example_engine) = Inr ()"
    "closed_trades (risk_manager
        (snd (run default_config quiet_df None None example_engine))) = []"
    unfolding quiet_filter
    by (simp_all add: quiet_nonempty quiet_run_bars(1) quiet_run_no_trades)
  from zero_trades_run_raises[OF h] h show ?thesis by simp
qed

end
